theory Spec2Isabelle
  imports Main "HOL-Library.Word"
begin

section \<open>JavaScript values\<close>

text \<open>
  A JavaScript string is modelled by its UTF-8 encoding, one \<^typ>\<open>char\<close> per byte, so that
  \<^verbatim>\<open>Buffer.from(s, 'utf8').length\<close> is \<^const>\<open>length\<close>. The Korean literals of the source
  are written out as their UTF-8 bytes; every such constant carries an English gloss
  and the source line it comes from.

  An optional string (a header, a query parameter, a route parameter) is a
  \<^typ>\<open>string option\<close>; \<^verbatim>\<open>undefined\<close> is \<^const>\<open>None\<close>. Both \<^verbatim>\<open>undefined\<close> and the empty
  string are falsy.
\<close>

definition truthy :: "string option \<Rightarrow> bool" where
  "truthy v = (case v of None \<Rightarrow> False | Some s \<Rightarrow> s \<noteq> [])"

definition js_or :: "string option \<Rightarrow> string option \<Rightarrow> string option" where
  \<comment> \<open>\<^verbatim>\<open>a || b\<close> on optional strings\<close>
  "js_or a b = (if truthy a then a else b)"

text \<open>
  An error object: its constructor name, its message, the stack text, and the \<^verbatim>\<open>code\<close>
  field that multer's errors carry. The stack of an error begins with name and message;
  the frames that follow are engine data and are left out of errors made by this code.
\<close>

record js_error =
  err_name :: string
  err_message :: string
  err_stack :: string
  err_code :: "string option"

definition Error :: "string \<Rightarrow> js_error" where
  "Error m = \<lparr>err_name = ''Error'', err_message = m,
              err_stack = ''Error: '' @ m, err_code = None\<rparr>"

definition TypeError :: "string \<Rightarrow> js_error" where
  "TypeError m = \<lparr>err_name = ''TypeError'', err_message = m,
                  err_stack = ''TypeError: '' @ m, err_code = None\<rparr>"

definition ReferenceError :: "string \<Rightarrow> js_error" where
  "ReferenceError m = \<lparr>err_name = ''ReferenceError'', err_message = m,
                       err_stack = ''ReferenceError: '' @ m, err_code = None\<rparr>"

definition MulterError :: "string \<Rightarrow> string \<Rightarrow> js_error" where
  "MulterError c m = \<lparr>err_name = ''MulterError'', err_message = m,
                      err_stack = ''MulterError: '' @ m, err_code = Some c\<rparr>"

subsection \<open>Property lookup on an object literal\<close>

text \<open>
  \<^verbatim>\<open>obj[k]\<close> on an object literal finds the literal's own properties and, failing that,
  the members of \<^verbatim>\<open>Object.prototype\<close>. The source indexes its tables with request data
  (a content type, an error message), so the inherited names are part of the model:
  an inherited value is truthy, is not a number and has no \<^verbatim>\<open>includes\<close> method.
\<close>

definition objectPrototypeKeys :: "string list" where
  "objectPrototypeKeys =
     [''constructor'', ''__proto__'', ''hasOwnProperty'', ''isPrototypeOf'',
      ''propertyIsEnumerable'', ''toLocaleString'', ''toString'', ''valueOf'',
      ''__defineGetter__'', ''__defineSetter__'', ''__lookupGetter__'',
      ''__lookupSetter__'']"

datatype 'a property = Own 'a | Inherited | Absent

definition js_get :: "(string \<times> 'a) list \<Rightarrow> string \<Rightarrow> 'a property" where
  "js_get obj k =
     (case map_of obj k of
        Some v \<Rightarrow> Own v
      | None \<Rightarrow> if k \<in> set objectPrototypeKeys then Inherited else Absent)"

definition inheritedText :: "string \<Rightarrow> string" where
  \<comment> \<open>what a template literal prints for an inherited member (V8)\<close>
  "inheritedText k =
     (if k = ''__proto__'' then ''[object Object]''
      else ''function '' @ (if k = ''constructor'' then ''Object'' else k)
             @ ''() { [native code] }'')"

subsection \<open>Numbers and strings\<close>

definition digits :: string where
  "digits = ''0123456789abcdef''"

fun decimal :: "nat \<Rightarrow> string" where
  \<comment> \<open>a non-negative integer inside a template literal\<close>
  "decimal n = (if n < 10 then [digits ! n] else decimal (n div 10) @ [digits ! (n mod 10)])"

declare decimal.simps [simp del]

definition hexByte :: "8 word \<Rightarrow> string" where
  "hexByte b = [digits ! (unat b div 16), digits ! (unat b mod 16)]"

definition toHex :: "64 word \<Rightarrow> string" where
  \<comment> \<open>\<^verbatim>\<open>crypto.randomBytes(8).toString('hex')\<close>: the eight random bytes are taken as one
      64-bit word, first byte most significant\<close>
  "toHex w = concat (map (\<lambda>i. hexByte (ucast (drop_bit (8 * i) w))) [7, 6, 5, 4, 3, 2, 1, 0])"

definition lowerChar :: "char \<Rightarrow> char" where
  \<comment> \<open>the letters A to Z are the bytes 65 to 90\<close>
  "lowerChar c =
     (let n = (of_char c :: nat) in if 65 \<le> n \<and> n \<le> 90 then char_of (n + 32) else c)"

definition toLowerCase :: "string \<Rightarrow> string" where
  "toLowerCase s = map lowerChar s"

text \<open>
  \<^const>\<open>toLowerCase\<close> lowers the ASCII letters and keeps every other byte. JavaScript also
  lowers letters outside ASCII, and the one code point it lowers to an ASCII letter is
  U+212A, to \<^verbatim>\<open>k\<close>. The source compares the lowered extension with the extension lists,
  none of which holds a \<^verbatim>\<open>k\<close>, and uses it further only when a list holds it, so both
  functions give the same answers there.
\<close>

subsection \<open>\<^verbatim>\<open>path.extname\<close>\<close>

text \<open>
  Node's POSIX \<^verbatim>\<open>path.extname\<close>: one scan from the end of the path, which skips the
  separators at the end and stops at the separator in front of the last path component. The bytes \<^verbatim>\<open>.\<close> and \<^verbatim>\<open>/\<close> never
  occur inside a multi-byte UTF-8 sequence, so the scan on bytes is the scan on
  characters.
\<close>

record scan =
  startDot :: int
  startPart :: int
  endPos :: int
  matchedSlash :: bool
  preDotState :: int

fun extname_scan :: "string \<Rightarrow> nat \<Rightarrow> scan \<Rightarrow> scan" where
  "extname_scan p 0 s = s"
| "extname_scan p (Suc i) s =
     (let code = p ! i in
      if code = CHR ''/'' then
        (if \<not> matchedSlash s then s\<lparr>startPart := int i + 1\<rparr>
         else extname_scan p i s)
      else
        (let s1 = (if endPos s = - 1 then s\<lparr>matchedSlash := False, endPos := int i + 1\<rparr>
                   else s);
             s2 = (if code = CHR ''.'' then
                     (if startDot s1 = - 1 then s1\<lparr>startDot := int i\<rparr>
                      else if preDotState s1 \<noteq> 1 then s1\<lparr>preDotState := 1\<rparr>
                      else s1)
                   else if startDot s1 \<noteq> - 1 then s1\<lparr>preDotState := - 1\<rparr>
                   else s1)
         in extname_scan p i s2))"

definition extname :: "string \<Rightarrow> string" where
  "extname p =
     (let s = extname_scan p (length p)
                \<lparr>startDot = - 1, startPart = 0, endPos = - 1,
                 matchedSlash = True, preDotState = 0\<rparr>
      in if startDot s = - 1 \<or> endPos s = - 1 \<or> preDotState s = 0 \<or>
            (preDotState s = 1 \<and> startDot s = endPos s - 1 \<and> startDot s = startPart s + 1)
         then ''''
         else take (nat (endPos s - startDot s)) (drop (nat (startDot s)) p))"

subsection \<open>\<^verbatim>\<open>Buffer.from(name, 'binary').toString('utf8')\<close>\<close>

text \<open>
  The conversion both callbacks of the upload middleware apply to a file name. Encoding
  a string as \<^verbatim>\<open>binary\<close> (Latin-1) keeps the low byte of each of its UTF-16 code units;
  decoding the bytes as UTF-8 replaces every ill-formed sequence by U+FFFD. A code point
  above U+FFFF is two code units, a high and a low surrogate.

  The first function reads its argument, the UTF-8 encoding of a string, sequence by
  sequence; where the bytes are no sequence it keeps them as they are.
\<close>

fun latin1_bytes :: "nat list \<Rightarrow> nat list" where
  "latin1_bytes [] = []"
| "latin1_bytes (b # bs) =
     (if b < 0xC0 then b # latin1_bytes bs
      else if b < 0xE0 then
        (case bs of
           c # cs \<Rightarrow> (((b mod 32) * 64 + c mod 64) mod 256) # latin1_bytes cs
         | [] \<Rightarrow> [b])
      else if b < 0xF0 then
        (case bs of
           c # d # ds \<Rightarrow>
             (((b mod 16) * 4096 + (c mod 64) * 64 + d mod 64) mod 256) # latin1_bytes ds
         | _ \<Rightarrow> b # bs)
      else
        (case bs of
           c # d # e # es \<Rightarrow>
             (let v = (b mod 8) * 262144 + (c mod 64) * 4096 + (d mod 64) * 64 + e mod 64
                      - 0x10000;
                  high = 0xD800 + v div 1024;
                  low = 0xDC00 + v mod 1024
              in (high mod 256) # (low mod 256) # latin1_bytes es)
         | _ \<Rightarrow> b # bs))"

definition continuation :: "nat \<Rightarrow> bool" where
  "continuation c = (0x80 \<le> c \<and> c \<le> 0xBF)"

definition second_byte :: "nat \<Rightarrow> nat \<Rightarrow> bool" where
  \<comment> \<open>the second byte that may follow the lead byte of a sequence of three or four\<close>
  "second_byte b c =
     (if b = 0xE0 then 0xA0 \<le> c \<and> c \<le> 0xBF
      else if b = 0xED then 0x80 \<le> c \<and> c \<le> 0x9F
      else if b = 0xF0 then 0x90 \<le> c \<and> c \<le> 0xBF
      else if b = 0xF4 then 0x80 \<le> c \<and> c \<le> 0x8F
      else continuation c)"

definition replacement :: "nat list" where
  \<comment> \<open>U+FFFD in UTF-8\<close>
  "replacement = [0xEF, 0xBF, 0xBD]"

fun utf8_decoded :: "nat list \<Rightarrow> nat list" where
  "utf8_decoded [] = []"
| "utf8_decoded (b # bs) =
     (if b < 0x80 then b # utf8_decoded bs
      else if 0xC2 \<le> b \<and> b \<le> 0xDF then
        (case bs of
           [] \<Rightarrow> replacement
         | c # cs \<Rightarrow>
             if continuation c then b # c # utf8_decoded cs
             else replacement @ utf8_decoded bs)
      else if 0xE0 \<le> b \<and> b \<le> 0xEF then
        (case bs of
           [] \<Rightarrow> replacement
         | c # cs \<Rightarrow>
             if second_byte b c then
               (case cs of
                  [] \<Rightarrow> replacement
                | d # ds \<Rightarrow>
                    if continuation d then b # c # d # utf8_decoded ds
                    else replacement @ utf8_decoded cs)
             else replacement @ utf8_decoded bs)
      else if 0xF0 \<le> b \<and> b \<le> 0xF4 then
        (case bs of
           [] \<Rightarrow> replacement
         | c # cs \<Rightarrow>
             if second_byte b c then
               (case cs of
                  [] \<Rightarrow> replacement
                | d # ds \<Rightarrow>
                    if continuation d then
                      (case ds of
                         [] \<Rightarrow> replacement
                       | e # es \<Rightarrow>
                           if continuation e then b # c # d # e # utf8_decoded es
                           else replacement @ utf8_decoded ds)
                    else replacement @ utf8_decoded cs)
             else replacement @ utf8_decoded bs)
      else replacement @ utf8_decoded bs)"

definition binaryToUtf8 :: "string \<Rightarrow> string" where
  "binaryToUtf8 s = map char_of (utf8_decoded (latin1_bytes (map of_char s)))"

section \<open>The texts of the source\<close>

definition txt_image :: string where
  \<comment> \<open>typeMap image: the Korean word for image\<close>
  "txt_image =
     [CHR 0xEC, CHR 0x9D, CHR 0xB4, CHR 0xEB, CHR 0xAF, CHR 0xB8, CHR 0xEC, CHR 0xA7,
     CHR 0x80]"

definition txt_video :: string where
  \<comment> \<open>typeMap video: the Korean word for video\<close>
  "txt_video =
     [CHR 0xEB, CHR 0x8F, CHR 0x99, CHR 0xEC, CHR 0x98, CHR 0x81, CHR 0xEC, CHR 0x83,
     CHR 0x81]"

definition txt_audio :: string where
  \<comment> \<open>typeMap audio: the Korean word for audio\<close>
  "txt_audio =
     [CHR 0xEC, CHR 0x98, CHR 0xA4, CHR 0xEB, CHR 0x94, CHR 0x94, CHR 0xEC, CHR 0x98,
     CHR 0xA4]"

definition txt_document :: string where
  \<comment> \<open>typeMap application: the Korean word for document\<close>
  "txt_document =
     [CHR 0xEB, CHR 0xAC, CHR 0xB8, CHR 0xEC, CHR 0x84, CHR 0x9C]"

definition txt_file :: string where
  \<comment> \<open>the fallback of getFileType: the Korean word for file\<close>
  "txt_file =
     [CHR 0xED, CHR 0x8C, CHR 0x8C, CHR 0xEC, CHR 0x9D, CHR 0xBC]"

definition txt_unsupported_extension :: string where
  \<comment> \<open>key callback, line 62: this file extension is not supported\<close>
  "txt_unsupported_extension =
     [CHR 0xEC, CHR 0xA7, CHR 0x80, CHR 0xEC, CHR 0x9B, CHR 0x90, CHR 0xED, CHR 0x95,
     CHR 0x98, CHR 0xEC, CHR 0xA7, CHR 0x80] @ '' '' @ [CHR 0xEC, CHR 0x95, CHR 0x8A,
     CHR 0xEB, CHR 0x8A, CHR 0x94] @ '' '' @ [CHR 0xED, CHR 0x8C, CHR 0x8C, CHR 0xEC,
     CHR 0x9D, CHR 0xBC] @ '' '' @ [CHR 0xED, CHR 0x99, CHR 0x95, CHR 0xEC, CHR 0x9E,
     CHR 0xA5, CHR 0xEC, CHR 0x9E, CHR 0x90, CHR 0xEC, CHR 0x9E, CHR 0x85, CHR 0xEB,
     CHR 0x8B, CHR 0x88, CHR 0xEB, CHR 0x8B, CHR 0xA4] @ ''.''"

definition txt_filename_generation :: string where
  \<comment> \<open>key callback, line 68: file name generation error\<close>
  "txt_filename_generation =
     [CHR 0xED, CHR 0x8C, CHR 0x8C, CHR 0xEC, CHR 0x9D, CHR 0xBC, CHR 0xEB, CHR 0xAA,
     CHR 0x85] @ '' '' @ [CHR 0xEC, CHR 0x83, CHR 0x9D, CHR 0xEC, CHR 0x84, CHR 0xB1] @
     '' '' @ [CHR 0xEC, CHR 0x98, CHR 0xA4, CHR 0xEB, CHR 0xA5, CHR 0x98]"

definition txt_size_mid :: string where
  \<comment> \<open>validateFileSize, line 90, between category and limit: files may not exceed\<close>
  "txt_size_mid =
     '' '' @ [CHR 0xED, CHR 0x8C, CHR 0x8C, CHR 0xEC, CHR 0x9D, CHR 0xBC, CHR 0xEC,
     CHR 0x9D, CHR 0x80] @ '' ''"

definition txt_size_end :: string where
  \<comment> \<open>validateFileSize, line 90, after the limit: MB\<close>
  "txt_size_end =
     ''MB'' @ [CHR 0xEB, CHR 0xA5, CHR 0xBC] @ '' '' @ [CHR 0xEC, CHR 0xB4, CHR 0x88,
     CHR 0xEA, CHR 0xB3, CHR 0xBC, CHR 0xED, CHR 0x95, CHR 0xA0] @ '' '' @ [CHR 0xEC,
     CHR 0x88, CHR 0x98] @ '' '' @ [CHR 0xEC, CHR 0x97, CHR 0x86, CHR 0xEC, CHR 0x8A,
     CHR 0xB5, CHR 0xEB, CHR 0x8B, CHR 0x88, CHR 0xEB, CHR 0x8B, CHR 0xA4] @ ''.''"

definition txt_unsupported_pre :: string where
  \<comment> \<open>fileFilter, line 100, before the category: unsupported\<close>
  "txt_unsupported_pre =
     [CHR 0xEC, CHR 0xA7, CHR 0x80, CHR 0xEC, CHR 0x9B, CHR 0x90, CHR 0xED, CHR 0x95,
     CHR 0x98, CHR 0xEC, CHR 0xA7, CHR 0x80] @ '' '' @ [CHR 0xEC, CHR 0x95, CHR 0x8A,
     CHR 0xEB, CHR 0x8A, CHR 0x94] @ '' ''"

definition txt_unsupported_post :: string where
  \<comment> \<open>fileFilter, line 100, after the category: format\<close>
  "txt_unsupported_post =
     '' '' @ [CHR 0xED, CHR 0x98, CHR 0x95, CHR 0xEC, CHR 0x8B, CHR 0x9D, CHR 0xEC,
     CHR 0x9E, CHR 0x85, CHR 0xEB, CHR 0x8B, CHR 0x88, CHR 0xEB, CHR 0x8B, CHR 0xA4] @
     ''.''"

definition txt_name_too_long :: string where
  \<comment> \<open>fileFilter, line 105: the file name is too long\<close>
  "txt_name_too_long =
     [CHR 0xED, CHR 0x8C, CHR 0x8C, CHR 0xEC, CHR 0x9D, CHR 0xBC, CHR 0xEB, CHR 0xAA,
     CHR 0x85, CHR 0xEC, CHR 0x9D, CHR 0xB4] @ '' '' @ [CHR 0xEB, CHR 0x84, CHR 0x88,
     CHR 0xEB, CHR 0xAC, CHR 0xB4] @ '' '' @ [CHR 0xEA, CHR 0xB9, CHR 0x81, CHR 0xEB,
     CHR 0x8B, CHR 0x88, CHR 0xEB, CHR 0x8B, CHR 0xA4] @ ''.''"

definition txt_bad_extension_post :: string where
  \<comment> \<open>fileFilter, line 110, after the category: extension is not valid\<close>
  "txt_bad_extension_post =
     '' '' @ [CHR 0xED, CHR 0x99, CHR 0x95, CHR 0xEC, CHR 0x9E, CHR 0xA5, CHR 0xEC,
     CHR 0x9E, CHR 0x90, CHR 0xEA, CHR 0xB0, CHR 0x80] @ '' '' @ [CHR 0xEC, CHR 0x98,
     CHR 0xAC, CHR 0xEB, CHR 0xB0, CHR 0x94, CHR 0xEB, CHR 0xA5, CHR 0xB4, CHR 0xEC,
     CHR 0xA7, CHR 0x80] @ '' '' @ [CHR 0xEC, CHR 0x95, CHR 0x8A, CHR 0xEC, CHR 0x8A,
     CHR 0xB5, CHR 0xEB, CHR 0x8B, CHR 0x88, CHR 0xEB, CHR 0x8B, CHR 0xA4] @ ''.''"

definition txt_limit_file_size :: string where
  \<comment> \<open>errorHandler, line 153: file size may not exceed 50MB\<close>
  "txt_limit_file_size =
     [CHR 0xED, CHR 0x8C, CHR 0x8C, CHR 0xEC, CHR 0x9D, CHR 0xBC] @ '' '' @ [CHR 0xED,
     CHR 0x81, CHR 0xAC, CHR 0xEA, CHR 0xB8, CHR 0xB0, CHR 0xEB, CHR 0x8A, CHR 0x94] @
     '' 50MB'' @ [CHR 0xEB, CHR 0xA5, CHR 0xBC] @ '' '' @ [CHR 0xEC, CHR 0xB4, CHR 0x88,
     CHR 0xEA, CHR 0xB3, CHR 0xBC, CHR 0xED, CHR 0x95, CHR 0xA0] @ '' '' @ [CHR 0xEC,
     CHR 0x88, CHR 0x98] @ '' '' @ [CHR 0xEC, CHR 0x97, CHR 0x86, CHR 0xEC, CHR 0x8A,
     CHR 0xB5, CHR 0xEB, CHR 0x8B, CHR 0x88, CHR 0xEB, CHR 0x8B, CHR 0xA4] @ ''.''"

definition txt_limit_file_count :: string where
  \<comment> \<open>errorHandler, line 158: only one file per upload\<close>
  "txt_limit_file_count =
     [CHR 0xED, CHR 0x95, CHR 0x9C] @ '' '' @ [CHR 0xEB, CHR 0xB2, CHR 0x88, CHR 0xEC,
     CHR 0x97, CHR 0x90] @ '' '' @ [CHR 0xED, CHR 0x95, CHR 0x98, CHR 0xEB, CHR 0x82,
     CHR 0x98, CHR 0xEC, CHR 0x9D, CHR 0x98] @ '' '' @ [CHR 0xED, CHR 0x8C, CHR 0x8C,
     CHR 0xEC, CHR 0x9D, CHR 0xBC, CHR 0xEB, CHR 0xA7, CHR 0x8C] @ '' '' @ [CHR 0xEC,
     CHR 0x97, CHR 0x85, CHR 0xEB, CHR 0xA1, CHR 0x9C, CHR 0xEB, CHR 0x93, CHR 0x9C,
     CHR 0xED, CHR 0x95, CHR 0xA0] @ '' '' @ [CHR 0xEC, CHR 0x88, CHR 0x98] @ '' '' @
     [CHR 0xEC, CHR 0x9E, CHR 0x88, CHR 0xEC, CHR 0x8A, CHR 0xB5, CHR 0xEB, CHR 0x8B,
     CHR 0x88, CHR 0xEB, CHR 0x8B, CHR 0xA4] @ ''.''"

definition txt_limit_unexpected :: string where
  \<comment> \<open>errorHandler, line 163: malformed file\<close>
  "txt_limit_unexpected =
     [CHR 0xEC, CHR 0x9E, CHR 0x98, CHR 0xEB, CHR 0xAA, CHR 0xBB, CHR 0xEB, CHR 0x90,
     CHR 0x9C] @ '' '' @ [CHR 0xED, CHR 0x98, CHR 0x95, CHR 0xEC, CHR 0x8B, CHR 0x9D,
     CHR 0xEC, CHR 0x9D, CHR 0x98] @ '' '' @ [CHR 0xED, CHR 0x8C, CHR 0x8C, CHR 0xEC,
     CHR 0x9D, CHR 0xBC, CHR 0xEC, CHR 0x9E, CHR 0x85, CHR 0xEB, CHR 0x8B, CHR 0x88,
     CHR 0xEB, CHR 0x8B, CHR 0xA4] @ ''.''"

definition txt_upload_error_pre :: string where
  \<comment> \<open>errorHandler, line 168, before the message: file upload error\<close>
  "txt_upload_error_pre =
     [CHR 0xED, CHR 0x8C, CHR 0x8C, CHR 0xEC, CHR 0x9D, CHR 0xBC] @ '' '' @ [CHR 0xEC,
     CHR 0x97, CHR 0x85, CHR 0xEB, CHR 0xA1, CHR 0x9C, CHR 0xEB, CHR 0x93, CHR 0x9C] @
     '' '' @ [CHR 0xEC, CHR 0x98, CHR 0xA4, CHR 0xEB, CHR 0xA5, CHR 0x98] @ '': ''"

definition txt_upload_failed :: string where
  \<comment> \<open>errorHandler, line 176, and uploadFile, line 102: an error occurred during file upload\<close>
  "txt_upload_failed =
     [CHR 0xED, CHR 0x8C, CHR 0x8C, CHR 0xEC, CHR 0x9D, CHR 0xBC] @ '' '' @ [CHR 0xEC,
     CHR 0x97, CHR 0x85, CHR 0xEB, CHR 0xA1, CHR 0x9C, CHR 0xEB, CHR 0x93, CHR 0x9C] @
     '' '' @ [CHR 0xEC, CHR 0xA4, CHR 0x91] @ '' '' @ [CHR 0xEC, CHR 0x98, CHR 0xA4,
     CHR 0xEB, CHR 0xA5, CHR 0x98, CHR 0xEA, CHR 0xB0, CHR 0x80] @ '' '' @ [CHR 0xEB,
     CHR 0xB0, CHR 0x9C, CHR 0xEC, CHR 0x83, CHR 0x9D, CHR 0xED, CHR 0x96, CHR 0x88,
     CHR 0xEC, CHR 0x8A, CHR 0xB5, CHR 0xEB, CHR 0x8B, CHR 0x88, CHR 0xEB, CHR 0x8B,
     CHR 0xA4] @ ''.''"

definition txt_unsafe_path :: string where
  \<comment> \<open>deleteFromS3, line 189: unsafe S3 path\<close>
  "txt_unsafe_path =
     [CHR 0xEC, CHR 0x95, CHR 0x88, CHR 0xEC, CHR 0xA0, CHR 0x84, CHR 0xED, CHR 0x95,
     CHR 0x98, CHR 0xEC, CHR 0xA7, CHR 0x80] @ '' '' @ [CHR 0xEC, CHR 0x95, CHR 0x8A,
     CHR 0xEC, CHR 0x9D, CHR 0x80] @ '' S3 '' @ [CHR 0xEA, CHR 0xB2, CHR 0xBD, CHR 0xEB,
     CHR 0xA1, CHR 0x9C, CHR 0xEC, CHR 0x9E, CHR 0x85, CHR 0xEB, CHR 0x8B, CHR 0x88,
     CHR 0xEB, CHR 0x8B, CHR 0xA4] @ ''.''"

definition txt_s3_delete_failed :: string where
  \<comment> \<open>deleteFromS3, line 196, console label: S3 file deletion failed\<close>
  "txt_s3_delete_failed =
     ''S3 '' @ [CHR 0xED, CHR 0x8C, CHR 0x8C, CHR 0xEC, CHR 0x9D, CHR 0xBC] @ '' '' @
     [CHR 0xEC, CHR 0x82, CHR 0xAD, CHR 0xEC, CHR 0xA0, CHR 0x9C] @ '' '' @ [CHR 0xEC,
     CHR 0x8B, CHR 0xA4, CHR 0xED, CHR 0x8C, CHR 0xA8] @ '':''"

definition txt_no_file_selected :: string where
  \<comment> \<open>uploadFile, line 63: no file was selected\<close>
  "txt_no_file_selected =
     [CHR 0xED, CHR 0x8C, CHR 0x8C, CHR 0xEC, CHR 0x9D, CHR 0xBC, CHR 0xEC, CHR 0x9D,
     CHR 0xB4] @ '' '' @ [CHR 0xEC, CHR 0x84, CHR 0xA0, CHR 0xED, CHR 0x83, CHR 0x9D,
     CHR 0xEB, CHR 0x90, CHR 0x98, CHR 0xEC, CHR 0xA7, CHR 0x80] @ '' '' @ [CHR 0xEC,
     CHR 0x95, CHR 0x8A, CHR 0xEC, CHR 0x95, CHR 0x98, CHR 0xEC, CHR 0x8A, CHR 0xB5,
     CHR 0xEB, CHR 0x8B, CHR 0x88, CHR 0xEB, CHR 0x8B, CHR 0xA4] @ ''.''"

definition txt_upload_success :: string where
  \<comment> \<open>uploadFile, line 86: file upload succeeded\<close>
  "txt_upload_success =
     [CHR 0xED, CHR 0x8C, CHR 0x8C, CHR 0xEC, CHR 0x9D, CHR 0xBC] @ '' '' @ [CHR 0xEC,
     CHR 0x97, CHR 0x85, CHR 0xEB, CHR 0xA1, CHR 0x9C, CHR 0xEB, CHR 0x93, CHR 0x9C] @
     '' '' @ [CHR 0xEC, CHR 0x84, CHR 0xB1, CHR 0xEA, CHR 0xB3, CHR 0xB5]"

definition txt_no_preview :: string where
  \<comment> \<open>viewFile, line 132: this file format has no preview\<close>
  "txt_no_preview =
     [CHR 0xEB, CHR 0xAF, CHR 0xB8, CHR 0xEB, CHR 0xA6, CHR 0xAC, CHR 0xEB, CHR 0xB3,
     CHR 0xB4, CHR 0xEA, CHR 0xB8, CHR 0xB0, CHR 0xEB, CHR 0xA5, CHR 0xBC] @ '' '' @
     [CHR 0xEC, CHR 0xA7, CHR 0x80, CHR 0xEC, CHR 0x9B, CHR 0x90, CHR 0xED, CHR 0x95,
     CHR 0x98, CHR 0xEC, CHR 0xA7, CHR 0x80] @ '' '' @ [CHR 0xEC, CHR 0x95, CHR 0x8A,
     CHR 0xEB, CHR 0x8A, CHR 0x94] @ '' '' @ [CHR 0xED, CHR 0x8C, CHR 0x8C, CHR 0xEC,
     CHR 0x9D, CHR 0xBC] @ '' '' @ [CHR 0xED, CHR 0x98, CHR 0x95, CHR 0xEC, CHR 0x8B,
     CHR 0x9D, CHR 0xEC, CHR 0x9E, CHR 0x85, CHR 0xEB, CHR 0x8B, CHR 0x88, CHR 0xEB,
     CHR 0x8B, CHR 0xA4] @ ''.''"

definition txt_bad_filename :: string where
  \<comment> \<open>handleFileError, line 171: invalid file name\<close>
  "txt_bad_filename =
     [CHR 0xEC, CHR 0x9E, CHR 0x98, CHR 0xEB, CHR 0xAA, CHR 0xBB, CHR 0xEB, CHR 0x90,
     CHR 0x9C] @ '' '' @ [CHR 0xED, CHR 0x8C, CHR 0x8C, CHR 0xEC, CHR 0x9D, CHR 0xBC,
     CHR 0xEB, CHR 0xAA, CHR 0x85, CHR 0xEC, CHR 0x9E, CHR 0x85, CHR 0xEB, CHR 0x8B,
     CHR 0x88, CHR 0xEB, CHR 0x8B, CHR 0xA4] @ ''.''"

definition txt_auth_required :: string where
  \<comment> \<open>handleFileError, line 172: authentication is required\<close>
  "txt_auth_required =
     [CHR 0xEC, CHR 0x9D, CHR 0xB8, CHR 0xEC, CHR 0xA6, CHR 0x9D, CHR 0xEC, CHR 0x9D,
     CHR 0xB4] @ '' '' @ [CHR 0xED, CHR 0x95, CHR 0x84, CHR 0xEC, CHR 0x9A, CHR 0x94,
     CHR 0xED, CHR 0x95, CHR 0xA9, CHR 0xEB, CHR 0x8B, CHR 0x88, CHR 0xEB, CHR 0x8B,
     CHR 0xA4] @ ''.''"

definition txt_bad_path :: string where
  \<comment> \<open>handleFileError, line 173: invalid file path\<close>
  "txt_bad_path =
     [CHR 0xEC, CHR 0x9E, CHR 0x98, CHR 0xEB, CHR 0xAA, CHR 0xBB, CHR 0xEB, CHR 0x90,
     CHR 0x9C] @ '' '' @ [CHR 0xED, CHR 0x8C, CHR 0x8C, CHR 0xEC, CHR 0x9D, CHR 0xBC] @
     '' '' @ [CHR 0xEA, CHR 0xB2, CHR 0xBD, CHR 0xEB, CHR 0xA1, CHR 0x9C, CHR 0xEC,
     CHR 0x9E, CHR 0x85, CHR 0xEB, CHR 0x8B, CHR 0x88, CHR 0xEB, CHR 0x8B, CHR 0xA4] @
     ''.''"

definition txt_file_not_found :: string where
  \<comment> \<open>handleFileError, lines 174 and 177, and deleteFile, line 194: the file cannot be found\<close>
  "txt_file_not_found =
     [CHR 0xED, CHR 0x8C, CHR 0x8C, CHR 0xEC, CHR 0x9D, CHR 0xBC, CHR 0xEC, CHR 0x9D,
     CHR 0x84] @ '' '' @ [CHR 0xEC, CHR 0xB0, CHR 0xBE, CHR 0xEC, CHR 0x9D, CHR 0x84] @
     '' '' @ [CHR 0xEC, CHR 0x88, CHR 0x98] @ '' '' @ [CHR 0xEC, CHR 0x97, CHR 0x86,
     CHR 0xEC, CHR 0x8A, CHR 0xB5, CHR 0xEB, CHR 0x8B, CHR 0x88, CHR 0xEB, CHR 0x8B,
     CHR 0xA4] @ ''.''"

definition txt_message_not_found :: string where
  \<comment> \<open>handleFileError, line 175: the file message cannot be found\<close>
  "txt_message_not_found =
     [CHR 0xED, CHR 0x8C, CHR 0x8C, CHR 0xEC, CHR 0x9D, CHR 0xBC] @ '' '' @ [CHR 0xEB,
     CHR 0xA9, CHR 0x94, CHR 0xEC, CHR 0x8B, CHR 0x9C, CHR 0xEC, CHR 0xA7, CHR 0x80,
     CHR 0xEB, CHR 0xA5, CHR 0xBC] @ '' '' @ [CHR 0xEC, CHR 0xB0, CHR 0xBE, CHR 0xEC,
     CHR 0x9D, CHR 0x84] @ '' '' @ [CHR 0xEC, CHR 0x88, CHR 0x98] @ '' '' @ [CHR 0xEC,
     CHR 0x97, CHR 0x86, CHR 0xEC, CHR 0x8A, CHR 0xB5, CHR 0xEB, CHR 0x8B, CHR 0x88,
     CHR 0xEB, CHR 0x8B, CHR 0xA4] @ ''.''"

definition txt_no_access :: string where
  \<comment> \<open>handleFileError, line 176: no permission to access the file\<close>
  "txt_no_access =
     [CHR 0xED, CHR 0x8C, CHR 0x8C, CHR 0xEC, CHR 0x9D, CHR 0xBC, CHR 0xEC, CHR 0x97,
     CHR 0x90] @ '' '' @ [CHR 0xEC, CHR 0xA0, CHR 0x91, CHR 0xEA, CHR 0xB7, CHR 0xBC,
     CHR 0xED, CHR 0x95, CHR 0xA0] @ '' '' @ [CHR 0xEA, CHR 0xB6, CHR 0x8C, CHR 0xED,
     CHR 0x95, CHR 0x9C, CHR 0xEC, CHR 0x9D, CHR 0xB4] @ '' '' @ [CHR 0xEC, CHR 0x97,
     CHR 0x86, CHR 0xEC, CHR 0x8A, CHR 0xB5, CHR 0xEB, CHR 0x8B, CHR 0x88, CHR 0xEB,
     CHR 0x8B, CHR 0xA4] @ ''.''"

definition txt_processing_failed :: string where
  \<comment> \<open>handleFileError, line 182: an error occurred while processing the file\<close>
  "txt_processing_failed =
     [CHR 0xED, CHR 0x8C, CHR 0x8C, CHR 0xEC, CHR 0x9D, CHR 0xBC] @ '' '' @ [CHR 0xEC,
     CHR 0xB2, CHR 0x98, CHR 0xEB, CHR 0xA6, CHR 0xAC] @ '' '' @ [CHR 0xEC, CHR 0xA4,
     CHR 0x91] @ '' '' @ [CHR 0xEC, CHR 0x98, CHR 0xA4, CHR 0xEB, CHR 0xA5, CHR 0x98,
     CHR 0xEA, CHR 0xB0, CHR 0x80] @ '' '' @ [CHR 0xEB, CHR 0xB0, CHR 0x9C, CHR 0xEC,
     CHR 0x83, CHR 0x9D, CHR 0xED, CHR 0x96, CHR 0x88, CHR 0xEC, CHR 0x8A, CHR 0xB5,
     CHR 0xEB, CHR 0x8B, CHR 0x88, CHR 0xEB, CHR 0x8B, CHR 0xA4] @ ''.''"

definition txt_no_delete_permission :: string where
  \<comment> \<open>deleteFile, line 195: no permission to delete the file\<close>
  "txt_no_delete_permission =
     [CHR 0xED, CHR 0x8C, CHR 0x8C, CHR 0xEC, CHR 0x9D, CHR 0xBC, CHR 0xEC, CHR 0x9D,
     CHR 0x84] @ '' '' @ [CHR 0xEC, CHR 0x82, CHR 0xAD, CHR 0xEC, CHR 0xA0, CHR 0x9C,
     CHR 0xED, CHR 0x95, CHR 0xA0] @ '' '' @ [CHR 0xEA, CHR 0xB6, CHR 0x8C, CHR 0xED,
     CHR 0x95, CHR 0x9C, CHR 0xEC, CHR 0x9D, CHR 0xB4] @ '' '' @ [CHR 0xEC, CHR 0x97,
     CHR 0x86, CHR 0xEC, CHR 0x8A, CHR 0xB5, CHR 0xEB, CHR 0x8B, CHR 0x88, CHR 0xEB,
     CHR 0x8B, CHR 0xA4] @ ''.''"

definition txt_file_deleted :: string where
  \<comment> \<open>deleteFile, line 205: the file has been deleted\<close>
  "txt_file_deleted =
     [CHR 0xED, CHR 0x8C, CHR 0x8C, CHR 0xEC, CHR 0x9D, CHR 0xBC, CHR 0xEC, CHR 0x9D,
     CHR 0xB4] @ '' '' @ [CHR 0xEC, CHR 0x82, CHR 0xAD, CHR 0xEC, CHR 0xA0, CHR 0x9C,
     CHR 0xEB, CHR 0x90, CHR 0x98, CHR 0xEC, CHR 0x97, CHR 0x88, CHR 0xEC, CHR 0x8A,
     CHR 0xB5, CHR 0xEB, CHR 0x8B, CHR 0x88, CHR 0xEB, CHR 0x8B, CHR 0xA4] @ ''.''"

definition txt_delete_failed :: string where
  \<comment> \<open>deleteFile, line 209: an error occurred while deleting the file\<close>
  "txt_delete_failed =
     [CHR 0xED, CHR 0x8C, CHR 0x8C, CHR 0xEC, CHR 0x9D, CHR 0xBC] @ '' '' @ [CHR 0xEC,
     CHR 0x82, CHR 0xAD, CHR 0xEC, CHR 0xA0, CHR 0x9C] @ '' '' @ [CHR 0xEC, CHR 0xA4,
     CHR 0x91] @ '' '' @ [CHR 0xEC, CHR 0x98, CHR 0xA4, CHR 0xEB, CHR 0xA5, CHR 0x98,
     CHR 0xEA, CHR 0xB0, CHR 0x80] @ '' '' @ [CHR 0xEB, CHR 0xB0, CHR 0x9C, CHR 0xEC,
     CHR 0x83, CHR 0x9D, CHR 0xED, CHR 0x96, CHR 0x88, CHR 0xEC, CHR 0x8A, CHR 0xB5,
     CHR 0xEB, CHR 0x8B, CHR 0x88, CHR 0xEB, CHR 0x8B, CHR 0xA4] @ ''.''"

definition txt_user_not_found :: string where
  \<comment> \<open>user controller: the user cannot be found\<close>
  "txt_user_not_found =
     [CHR 0xEC, CHR 0x82, CHR 0xAC, CHR 0xEC, CHR 0x9A, CHR 0xA9, CHR 0xEC, CHR 0x9E,
     CHR 0x90, CHR 0xEB, CHR 0xA5, CHR 0xBC] @ '' '' @ [CHR 0xEC, CHR 0xB0, CHR 0xBE,
     CHR 0xEC, CHR 0x9D, CHR 0x84] @ '' '' @ [CHR 0xEC, CHR 0x88, CHR 0x98] @ '' '' @
     [CHR 0xEC, CHR 0x97, CHR 0x86, CHR 0xEC, CHR 0x8A, CHR 0xB5, CHR 0xEB, CHR 0x8B,
     CHR 0x88, CHR 0xEB, CHR 0x8B, CHR 0xA4] @ ''.''"

definition txt_image_missing :: string where
  \<comment> \<open>uploadProfileImage: the image URL or file key is missing\<close>
  "txt_image_missing =
     [CHR 0xEC, CHR 0x9D, CHR 0xB4, CHR 0xEB, CHR 0xAF, CHR 0xB8, CHR 0xEC, CHR 0xA7,
     CHR 0x80] @ '' URL '' @ [CHR 0xEB, CHR 0x98, CHR 0x90, CHR 0xEB, CHR 0x8A, CHR 0x94] @
     '' '' @ [CHR 0xED, CHR 0x8C, CHR 0x8C, CHR 0xEC, CHR 0x9D, CHR 0xBC] @ '' '' @
     [CHR 0xED, CHR 0x82, CHR 0xA4, CHR 0xEA, CHR 0xB0, CHR 0x80] @ '' '' @ [CHR 0xEB,
     CHR 0x88, CHR 0x84, CHR 0xEB, CHR 0x9D, CHR 0xBD, CHR 0xEB, CHR 0x90, CHR 0x98,
     CHR 0xEC, CHR 0x97, CHR 0x88, CHR 0xEC, CHR 0x8A, CHR 0xB5, CHR 0xEB, CHR 0x8B,
     CHR 0x88, CHR 0xEB, CHR 0x8B, CHR 0xA4] @ ''.''"

definition txt_old_image_delete_failed :: string where
  \<comment> \<open>uploadProfileImage, console label: deleting the previous profile image failed\<close>
  "txt_old_image_delete_failed =
     [CHR 0xEA, CHR 0xB8, CHR 0xB0, CHR 0xEC, CHR 0xA1, CHR 0xB4] @ '' '' @ [CHR 0xED,
     CHR 0x94, CHR 0x84, CHR 0xEB, CHR 0xA1, CHR 0x9C, CHR 0xED, CHR 0x95, CHR 0x84] @
     '' '' @ [CHR 0xEC, CHR 0x9D, CHR 0xB4, CHR 0xEB, CHR 0xAF, CHR 0xB8, CHR 0xEC,
     CHR 0xA7, CHR 0x80] @ '' '' @ [CHR 0xEC, CHR 0x82, CHR 0xAD, CHR 0xEC, CHR 0xA0,
     CHR 0x9C] @ '' '' @ [CHR 0xEC, CHR 0x8B, CHR 0xA4, CHR 0xED, CHR 0x8C, CHR 0xA8] @
     '':''"

definition txt_image_saved :: string where
  \<comment> \<open>uploadProfileImage: the profile image has been saved\<close>
  "txt_image_saved =
     [CHR 0xED, CHR 0x94, CHR 0x84, CHR 0xEB, CHR 0xA1, CHR 0x9C, CHR 0xED, CHR 0x95,
     CHR 0x84] @ '' '' @ [CHR 0xEC, CHR 0x9D, CHR 0xB4, CHR 0xEB, CHR 0xAF, CHR 0xB8,
     CHR 0xEC, CHR 0xA7, CHR 0x80, CHR 0xEA, CHR 0xB0, CHR 0x80] @ '' '' @ [CHR 0xEC,
     CHR 0xA0, CHR 0x80, CHR 0xEC, CHR 0x9E, CHR 0xA5, CHR 0xEB, CHR 0x90, CHR 0x98,
     CHR 0xEC, CHR 0x97, CHR 0x88, CHR 0xEC, CHR 0x8A, CHR 0xB5, CHR 0xEB, CHR 0x8B,
     CHR 0x88, CHR 0xEB, CHR 0x8B, CHR 0xA4] @ ''.''"

definition txt_image_save_failed :: string where
  \<comment> \<open>uploadProfileImage: an error occurred while saving the profile image\<close>
  "txt_image_save_failed =
     [CHR 0xED, CHR 0x94, CHR 0x84, CHR 0xEB, CHR 0xA1, CHR 0x9C, CHR 0xED, CHR 0x95,
     CHR 0x84] @ '' '' @ [CHR 0xEC, CHR 0x9D, CHR 0xB4, CHR 0xEB, CHR 0xAF, CHR 0xB8,
     CHR 0xEC, CHR 0xA7, CHR 0x80] @ '' '' @ [CHR 0xEC, CHR 0xA0, CHR 0x80, CHR 0xEC,
     CHR 0x9E, CHR 0xA5] @ '' '' @ [CHR 0xEC, CHR 0xA4, CHR 0x91] @ '' '' @ [CHR 0xEC,
     CHR 0x98, CHR 0xA4, CHR 0xEB, CHR 0xA5, CHR 0x98, CHR 0xEA, CHR 0xB0, CHR 0x80] @
     '' '' @ [CHR 0xEB, CHR 0xB0, CHR 0x9C, CHR 0xEC, CHR 0x83, CHR 0x9D, CHR 0xED,
     CHR 0x96, CHR 0x88, CHR 0xEC, CHR 0x8A, CHR 0xB5, CHR 0xEB, CHR 0x8B, CHR 0x88,
     CHR 0xEB, CHR 0x8B, CHR 0xA4] @ ''.''"

definition txt_image_deleted :: string where
  \<comment> \<open>deleteProfileImage: the profile image has been deleted\<close>
  "txt_image_deleted =
     [CHR 0xED, CHR 0x94, CHR 0x84, CHR 0xEB, CHR 0xA1, CHR 0x9C, CHR 0xED, CHR 0x95,
     CHR 0x84] @ '' '' @ [CHR 0xEC, CHR 0x9D, CHR 0xB4, CHR 0xEB, CHR 0xAF, CHR 0xB8,
     CHR 0xEC, CHR 0xA7, CHR 0x80, CHR 0xEA, CHR 0xB0, CHR 0x80] @ '' '' @ [CHR 0xEC,
     CHR 0x82, CHR 0xAD, CHR 0xEC, CHR 0xA0, CHR 0x9C, CHR 0xEB, CHR 0x90, CHR 0x98,
     CHR 0xEC, CHR 0x97, CHR 0x88, CHR 0xEC, CHR 0x8A, CHR 0xB5, CHR 0xEB, CHR 0x8B,
     CHR 0x88, CHR 0xEB, CHR 0x8B, CHR 0xA4] @ ''.''"

definition txt_image_delete_failed :: string where
  \<comment> \<open>deleteProfileImage: an error occurred while deleting the profile image\<close>
  "txt_image_delete_failed =
     [CHR 0xED, CHR 0x94, CHR 0x84, CHR 0xEB, CHR 0xA1, CHR 0x9C, CHR 0xED, CHR 0x95,
     CHR 0x84] @ '' '' @ [CHR 0xEC, CHR 0x9D, CHR 0xB4, CHR 0xEB, CHR 0xAF, CHR 0xB8,
     CHR 0xEC, CHR 0xA7, CHR 0x80] @ '' '' @ [CHR 0xEC, CHR 0x82, CHR 0xAD, CHR 0xEC,
     CHR 0xA0, CHR 0x9C] @ '' '' @ [CHR 0xEC, CHR 0xA4, CHR 0x91] @ '' '' @ [CHR 0xEC,
     CHR 0x98, CHR 0xA4, CHR 0xEB, CHR 0xA5, CHR 0x98, CHR 0xEA, CHR 0xB0, CHR 0x80] @
     '' '' @ [CHR 0xEB, CHR 0xB0, CHR 0x9C, CHR 0xEC, CHR 0x83, CHR 0x9D, CHR 0xED,
     CHR 0x96, CHR 0x88, CHR 0xEC, CHR 0x8A, CHR 0xB5, CHR 0xEB, CHR 0x8B, CHR 0x88,
     CHR 0xEB, CHR 0x8B, CHR 0xA4] @ ''.''"

definition txt_account_deleted :: string where
  \<comment> \<open>deleteAccount: the account has been closed\<close>
  "txt_account_deleted =
     [CHR 0xED, CHR 0x9A, CHR 0x8C, CHR 0xEC, CHR 0x9B, CHR 0x90] @ '' '' @ [CHR 0xED,
     CHR 0x83, CHR 0x88, CHR 0xED, CHR 0x87, CHR 0xB4, CHR 0xEA, CHR 0xB0, CHR 0x80] @
     '' '' @ [CHR 0xEC, CHR 0x99, CHR 0x84, CHR 0xEB, CHR 0xA3, CHR 0x8C, CHR 0xEB,
     CHR 0x90, CHR 0x98, CHR 0xEC, CHR 0x97, CHR 0x88, CHR 0xEC, CHR 0x8A, CHR 0xB5,
     CHR 0xEB, CHR 0x8B, CHR 0x88, CHR 0xEB, CHR 0x8B, CHR 0xA4] @ ''.''"

definition txt_account_delete_failed :: string where
  \<comment> \<open>deleteAccount: an error occurred while closing the account\<close>
  "txt_account_delete_failed =
     [CHR 0xED, CHR 0x9A, CHR 0x8C, CHR 0xEC, CHR 0x9B, CHR 0x90] @ '' '' @ [CHR 0xED,
     CHR 0x83, CHR 0x88, CHR 0xED, CHR 0x87, CHR 0xB4] @ '' '' @ [CHR 0xEC, CHR 0xB2,
     CHR 0x98, CHR 0xEB, CHR 0xA6, CHR 0xAC] @ '' '' @ [CHR 0xEC, CHR 0xA4, CHR 0x91] @
     '' '' @ [CHR 0xEC, CHR 0x98, CHR 0xA4, CHR 0xEB, CHR 0xA5, CHR 0x98, CHR 0xEA,
     CHR 0xB0, CHR 0x80] @ '' '' @ [CHR 0xEB, CHR 0xB0, CHR 0x9C, CHR 0xEC, CHR 0x83,
     CHR 0x9D, CHR 0xED, CHR 0x96, CHR 0x88, CHR 0xEC, CHR 0x8A, CHR 0xB5, CHR 0xEB,
     CHR 0x8B, CHR 0x88, CHR 0xEB, CHR 0x8B, CHR 0xA4] @ ''.''"

definition txt_cache_update :: string where
  \<comment> \<open>ProfileCacheService.updateProfile, console: profile cache update\<close>
  "txt_cache_update =
     [CHR 0xED, CHR 0x94, CHR 0x84, CHR 0xEB, CHR 0xA1, CHR 0x9C, CHR 0xED, CHR 0x95,
     CHR 0x84] @ '' '' @ [CHR 0xEC, CHR 0xBA, CHR 0x90, CHR 0xEC, CHR 0x8B, CHR 0x9C] @
     '' update : ''"

definition txt_cache_invalidated :: string where
  \<comment> \<open>ProfileCacheService.invalidateProfile, console: profile cache invalidated\<close>
  "txt_cache_invalidated =
     [CHR 0xED, CHR 0x94, CHR 0x84, CHR 0xEB, CHR 0xA1, CHR 0x9C, CHR 0xED, CHR 0x95,
     CHR 0x84] @ '' '' @ [CHR 0xEC, CHR 0xBA, CHR 0x90, CHR 0xEC, CHR 0x8B, CHR 0x9C] @
     '' '' @ [CHR 0xEB, CHR 0xAC, CHR 0xB4, CHR 0xED, CHR 0x9A, CHR 0xA8, CHR 0xED,
     CHR 0x99, CHR 0x94] @ '' : ''"

section \<open>The upload middleware\<close>

subsection \<open>Tables\<close>

definition ALLOWED_TYPES :: "(string \<times> string list) list" where
  "ALLOWED_TYPES =
     [(''image/jpeg'', [''.jpg'', ''.jpeg'']),
      (''image/png'', [''.png'']),
      (''image/gif'', [''.gif'']),
      (''image/webp'', [''.webp'']),
      (''video/mp4'', [''.mp4'']),
      (''video/webm'', [''.webm'']),
      (''video/quicktime'', [''.mov'']),
      (''audio/mpeg'', [''.mp3'']),
      (''audio/wav'', [''.wav'']),
      (''audio/ogg'', [''.ogg'']),
      (''application/pdf'', [''.pdf'']),
      (''application/msword'', [''.doc'']),
      (''application/vnd.openxmlformats-officedocument.wordprocessingml.document'',
       [''.docx''])]"

definition FILE_SIZE_LIMITS :: "(string \<times> nat) list" where
  "FILE_SIZE_LIMITS =
     [(''image'', 10 * 1024 * 1024),
      (''video'', 50 * 1024 * 1024),
      (''audio'', 20 * 1024 * 1024),
      (''document'', 20 * 1024 * 1024)]"

definition typeMap :: "(string \<times> string) list" where
  "typeMap =
     [(''image'', txt_image), (''video'', txt_video), (''audio'', txt_audio),
      (''application'', txt_document)]"

text \<open>The file object that multer hands to the callbacks.\<close>

record multer_file =
  originalname :: string
  mimetype :: string
  size_bytes :: nat

subsection \<open>The storage key\<close>

text \<open>
  The \<^verbatim>\<open>key\<close> callback of the multer-s3 storage. \<^verbatim>\<open>Buffer.from(name, 'binary').toString('utf8')\<close>
  is a conversion of Node's \<^verbatim>\<open>Buffer\<close>; here and in the file filter it is the parameter
  \<open>dec\<close>, and \<^const>\<open>binaryToUtf8\<close> is what Node computes. \<^verbatim>\<open>Date.now()\<close> and
  \<^verbatim>\<open>crypto.randomBytes(8)\<close> are the parameters \<open>timestamp\<close> and \<open>random\<close>. With a string
  for a name nothing in the \<^verbatim>\<open>try\<close> block throws, so the \<^verbatim>\<open>catch\<close> branch (line 66)
  has no case here. The callback also stores the decoded name in the request
  (line 53), where nothing of the code at hand reads it.
\<close>

definition allowedExtensions :: "string list" where
  \<comment> \<open>\<^verbatim>\<open>Object.values(ALLOWED_TYPES).flat()\<close>\<close>
  "allowedExtensions = concat (map snd ALLOWED_TYPES)"

definition storage_key ::
  "(string \<Rightarrow> string) \<Rightarrow> nat \<Rightarrow> 64 word \<Rightarrow> multer_file \<Rightarrow> js_error + string" where
  "storage_key dec timestamp random file =
     (let originalname' = dec (originalname file);
          ext = toLowerCase (extname originalname');
          randomString = toHex random;
          filename = decimal timestamp @ ''_'' @ randomString @ ext
      in if ext \<notin> set allowedExtensions then Inl (Error txt_unsupported_extension)
         else Inr (''uploads/'' @ filename))"

subsection \<open>Category names and size limits\<close>

definition split0 :: "string \<Rightarrow> string" where
  \<comment> \<open>\<^verbatim>\<open>mimetype.split('/')[0]\<close>\<close>
  "split0 s = takeWhile (\<lambda>c. c \<noteq> CHR ''/'') s"

definition getFileType :: "string \<Rightarrow> string" where
  "getFileType mt =
     (let type = split0 mt in
      case js_get typeMap type of
        Own t \<Rightarrow> if t \<noteq> [] then t else txt_file
      | Inherited \<Rightarrow> inheritedText type
      | Absent \<Rightarrow> txt_file)"

text \<open>
  \<^verbatim>\<open>FILE_SIZE_LIMITS[type] || FILE_SIZE_LIMITS.document\<close>. An inherited member is truthy
  and is not a number: the result is \<^const>\<open>None\<close>, and \<^verbatim>\<open>file.size > limit\<close> is then false.
\<close>

definition sizeLimit :: "string \<Rightarrow> nat option" where
  "sizeLimit type =
     (case js_get FILE_SIZE_LIMITS type of
        Own n \<Rightarrow> if n \<noteq> 0 then Some n else map_of FILE_SIZE_LIMITS ''document''
      | Inherited \<Rightarrow> None
      | Absent \<Rightarrow> map_of FILE_SIZE_LIMITS ''document'')"

definition validateFileSize :: "multer_file \<Rightarrow> js_error + bool" where
  "validateFileSize file =
     (let type = split0 (mimetype file) in
      case sizeLimit type of
        None \<Rightarrow> Inr True
      | Some limit \<Rightarrow>
          if size_bytes file > limit then
            (let limitInMB = limit div 1024 div 1024 in
             Inl (Error (getFileType (mimetype file) @ txt_size_mid @ decimal limitInMB
                         @ txt_size_end)))
          else Inr True)"

subsection \<open>The file filter\<close>

datatype log_entry =
    ConsoleError string js_error
  | ConsoleErrorFields string "(string \<times> string) list"
  | ConsoleWarn string string
  | ConsoleLog string

text \<open>
  The result of \<^verbatim>\<open>fileFilter\<close> is the callback's argument, \<^const>\<open>Inl\<close> the error of a
  rejected file and \<^const>\<open>Inr\<close> the accepted file with its name replaced by the decoded
  one (line 113), and what the \<^verbatim>\<open>catch\<close> branch wrote to the console. The only throw in
  the \<^verbatim>\<open>try\<close> block is the call of \<^verbatim>\<open>includes\<close> on an inherited member.
\<close>

definition fileFilter ::
  "(string \<Rightarrow> string) \<Rightarrow> multer_file \<Rightarrow> (js_error + multer_file) \<times> log_entry list" where
  "fileFilter dec file =
     (let originalname' = dec (originalname file) in
      case js_get ALLOWED_TYPES (mimetype file) of
        Absent \<Rightarrow>
          (Inl (Error (txt_unsupported_pre @ getFileType (mimetype file)
                       @ txt_unsupported_post)), [])
      | allowed \<Rightarrow>
          (let filenameBytes = length originalname' in
           if filenameBytes > 255 then (Inl (Error txt_name_too_long), [])
           else
             (let ext = toLowerCase (extname originalname') in
              case allowed of
                Own exts \<Rightarrow>
                  if ext \<notin> set exts then
                    (Inl (Error (getFileType (mimetype file) @ txt_bad_extension_post)), [])
                  else (Inr (file\<lparr>originalname := originalname'\<rparr>), [])
              | _ \<Rightarrow>
                  (let error = TypeError
                         ''ALLOWED_TYPES[file.mimetype].includes is not a function''
                   in (Inl error, [ConsoleError ''File filter error:'' error])))))"

subsection \<open>The limits of the multer instance and its error handler\<close>

definition limits_fileSize :: nat where
  "limits_fileSize = 50 * 1024 * 1024"

definition limits_files :: nat where
  "limits_files = 1"

text \<open>
  multer aborts an upload whose file has more bytes than \<^verbatim>\<open>limits.fileSize\<close> with its
  \<^verbatim>\<open>LIMIT_FILE_SIZE\<close> error. What it does with a file of exactly that size depends on
  the version of its parser; nothing below depends on that case.
\<close>

definition multer_fileSize :: "nat \<Rightarrow> js_error + unit" where
  "multer_fileSize n =
     (if n > limits_fileSize then Inl (MulterError ''LIMIT_FILE_SIZE'' ''File too large'')
      else Inr ())"

datatype json = JBool bool | JStr string | JNum nat | JObj "(string \<times> json) list"

datatype response =
    Json nat "(string \<times> json) list"
  | Redirect string
  | StatusUndefined "(string \<times> json) list"

abbreviation failure :: "nat \<Rightarrow> string \<Rightarrow> response" where
  "failure st m \<equiv> Json st [(''success'', JBool False), (''message'', JStr m)]"

fun body_fields :: "response \<Rightarrow> string list" where
  "body_fields (Json st b) = map fst b"
| "body_fields (Redirect url) = []"
| "body_fields (StatusUndefined b) = map fst b"

text \<open>
  \<^term>\<open>Json st b\<close> is \<^verbatim>\<open>res.status(st).json(b)\<close>, and \<^verbatim>\<open>res.json(b)\<close> for \<open>st = 200\<close>.
  \<^const>\<open>StatusUndefined\<close> is \<^verbatim>\<open>res.status(undefined).json(b)\<close>; a field whose value is
  \<^verbatim>\<open>undefined\<close> is not serialised.
\<close>

text \<open>
  The error handler of the upload route. It is called with an error, so the \<^verbatim>\<open>next()\<close> of
  line 180 is not reached. The console entry also shows \<^verbatim>\<open>req.file\<close>, which is left out
  here.
\<close>

definition errorHandler :: "js_error \<Rightarrow> response \<times> log_entry list" where
  "errorHandler error =
     (let logged = [ConsoleErrorFields ''File upload error:''
                      [(''error'', err_message error), (''stack'', err_stack error)]] in
      if err_name error = ''MulterError'' then
        (if err_code error = Some ''LIMIT_FILE_SIZE'' then
           (Json 413 [(''success'', JBool False), (''message'', JStr txt_limit_file_size)],
            logged)
         else if err_code error = Some ''LIMIT_FILE_COUNT'' then
           (Json 400 [(''success'', JBool False), (''message'', JStr txt_limit_file_count)],
            logged)
         else if err_code error = Some ''LIMIT_UNEXPECTED_FILE'' then
           (Json 400 [(''success'', JBool False), (''message'', JStr txt_limit_unexpected)],
            logged)
         else
           (Json 400 [(''success'', JBool False),
                      (''message'', JStr (txt_upload_error_pre @ err_message error))],
            logged))
      else
        (Json 400 [(''success'', JBool False),
                   (''message'', JStr (if err_message error \<noteq> [] then err_message error
                                       else txt_upload_failed))],
         logged))"

subsection \<open>The path check\<close>

definition isPathSafe :: "string \<Rightarrow> bool" where
  "isPathSafe key = (take 8 key = ''uploads/'')"

section \<open>The catalog, the object store and the request\<close>

text \<open>The documents of the three collections the file controller reads, and the user.\<close>

record file_doc =
  f_id :: string
  f_filename :: string
  f_originalname :: string
  f_mimetype :: string
  f_size :: nat
  f_user :: string
  f_path :: string
  f_url :: string
  f_uploadDate :: nat

record message_doc =
  m_id :: string
  m_room :: string
  m_file :: "string option"

record room_doc =
  r_id :: string
  r_participants :: "string list"

record user_doc =
  u_id :: string
  u_name :: string
  u_email :: string
  u_profileImage :: string

datatype s3_command =
    GetObjectCommand "string option" string "string option"
  | DeleteObjectCommand "string option" string

datatype s3_call = Send s3_command | Presign s3_command nat

text \<open>
  The commands of the store client, with the fields the source sets: \<^verbatim>\<open>Bucket\<close> (an
  environment variable, which may be unset), \<^verbatim>\<open>Key\<close>, and for a read the
  \<^verbatim>\<open>ResponseContentDisposition\<close>. A \<^const>\<open>Send\<close> is \<^verbatim>\<open>s3.send(command)\<close>, a \<^const>\<open>Presign\<close>
  is \<^verbatim>\<open>getSignedUrl(s3, command, {expiresIn})\<close>.
\<close>

fun command_key :: "s3_command \<Rightarrow> string" where
  "command_key (GetObjectCommand b k d) = k"
| "command_key (DeleteObjectCommand b k) = k"

datatype catalog_call =
    File_findOne string
  | File_findById string
  | File_save file_doc
  | File_deleteOne string
  | Message_findOne string
  | Room_findOne string string
  | User_findById string
  | User_save user_doc
  | User_deleteOne string

datatype redis_call = Redis_setEx string | Redis_del string

text \<open>
  What the handlers do not decide themselves: the environment variables, whether a call
  to the store, the catalog or the cache fails and with which error, the URL a
  signature yields, Node's \<^verbatim>\<open>encodeURIComponent\<close>, the \<^verbatim>\<open>isPreviewable\<close> method of the
  \<^verbatim>\<open>File\<close> schema, and the identifier and date a new document gets.
\<close>

record env =
  process_env :: "string \<Rightarrow> string option"
  s3_send :: "s3_command \<Rightarrow> js_error option"
  getSignedUrl :: "s3_command \<Rightarrow> nat \<Rightarrow> js_error + string"
  catalog_fault :: "catalog_call \<Rightarrow> js_error option"
  redis_fault :: "redis_call \<Rightarrow> js_error option"
  encodeURIComponent :: "string \<Rightarrow> string"
  isPreviewable :: "file_doc \<Rightarrow> bool"
  newObjectId :: string
  now :: nat

text \<open>
  The state a handler works on: the collections, the profile cache, the calls handed to
  the store client so far, in order, and the console.
\<close>

record world =
  files :: "file_doc list"
  messages :: "message_doc list"
  rooms :: "room_doc list"
  users :: "user_doc list"
  profile_cache :: "(string \<times> user_doc) list"
  s3_calls :: "s3_call list"
  console :: "log_entry list"

record stored_file =
  sf_key :: string
  sf_location :: string
  sf_originalname :: string
  sf_mimetype :: string
  sf_size :: nat

record request =
  params_filename :: "string option"
  params_id :: string
  header_auth_token :: "string option"
  header_session_id :: "string option"
  query_token :: "string option"
  query_sessionId :: "string option"
  user_id :: string
  req_file :: "stored_file option"
  body_profileImage :: "string option"

definition log :: "log_entry \<Rightarrow> world \<Rightarrow> world" where
  "log l w = w\<lparr>console := console w @ [l]\<rparr>"

definition call_store :: "s3_call \<Rightarrow> world \<Rightarrow> world" where
  "call_store c w = w\<lparr>s3_calls := s3_calls w @ [c]\<rparr>"

subsection \<open>Catalog operations\<close>

definition File_findOne_filename :: "env \<Rightarrow> world \<Rightarrow> string \<Rightarrow> js_error + file_doc option" where
  \<comment> \<open>\<^verbatim>\<open>File.findOne({ filename })\<close>\<close>
  "File_findOne_filename e w filename =
     (case catalog_fault e (File_findOne filename) of
        Some error \<Rightarrow> Inl error
      | None \<Rightarrow> Inr (find (\<lambda>f. f_filename f = filename) (files w)))"

definition File_findById_id :: "env \<Rightarrow> world \<Rightarrow> string \<Rightarrow> js_error + file_doc option" where
  \<comment> \<open>\<^verbatim>\<open>File.findById(id)\<close>\<close>
  "File_findById_id e w i =
     (case catalog_fault e (File_findById i) of
        Some error \<Rightarrow> Inl error
      | None \<Rightarrow> Inr (find (\<lambda>f. f_id f = i) (files w)))"

definition Message_findOne_file :: "env \<Rightarrow> world \<Rightarrow> string \<Rightarrow> js_error + message_doc option" where
  \<comment> \<open>\<^verbatim>\<open>Message.findOne({ file: file._id })\<close>\<close>
  "Message_findOne_file e w i =
     (case catalog_fault e (Message_findOne i) of
        Some error \<Rightarrow> Inl error
      | None \<Rightarrow> Inr (find (\<lambda>m. m_file m = Some i) (messages w)))"

definition Room_findOne_participant ::
  "env \<Rightarrow> world \<Rightarrow> string \<Rightarrow> string \<Rightarrow> js_error + room_doc option" where
  \<comment> \<open>\<^verbatim>\<open>Room.findOne({ _id: message.room, participants: req.user.id })\<close>\<close>
  "Room_findOne_participant e w room_id uid =
     (case catalog_fault e (Room_findOne room_id uid) of
        Some error \<Rightarrow> Inl error
      | None \<Rightarrow> Inr (find (\<lambda>r. r_id r = room_id \<and> uid \<in> set (r_participants r)) (rooms w)))"

definition file_save :: "env \<Rightarrow> world \<Rightarrow> file_doc \<Rightarrow> js_error + world" where
  "file_save e w file =
     (case catalog_fault e (File_save file) of
        Some error \<Rightarrow> Inl error
      | None \<Rightarrow> Inr (w\<lparr>files := filter (\<lambda>f. f_id f \<noteq> f_id file) (files w) @ [file]\<rparr>))"

definition file_deleteOne :: "env \<Rightarrow> world \<Rightarrow> file_doc \<Rightarrow> js_error + world" where
  "file_deleteOne e w file =
     (case catalog_fault e (File_deleteOne (f_id file)) of
        Some error \<Rightarrow> Inl error
      | None \<Rightarrow> Inr (w\<lparr>files := filter (\<lambda>f. f_id f \<noteq> f_id file) (files w)\<rparr>))"

definition User_findById_id :: "env \<Rightarrow> world \<Rightarrow> string \<Rightarrow> js_error + user_doc option" where
  "User_findById_id e w i =
     (case catalog_fault e (User_findById i) of
        Some error \<Rightarrow> Inl error
      | None \<Rightarrow> Inr (find (\<lambda>u. u_id u = i) (users w)))"

definition user_save :: "env \<Rightarrow> world \<Rightarrow> user_doc \<Rightarrow> js_error + world" where
  "user_save e w user =
     (case catalog_fault e (User_save user) of
        Some error \<Rightarrow> Inl error
      | None \<Rightarrow> Inr (w\<lparr>users := map (\<lambda>u. if u_id u = u_id user then user else u) (users w)\<rparr>))"

definition user_deleteOne :: "env \<Rightarrow> world \<Rightarrow> user_doc \<Rightarrow> js_error + world" where
  "user_deleteOne e w user =
     (case catalog_fault e (User_deleteOne (u_id user)) of
        Some error \<Rightarrow> Inl error
      | None \<Rightarrow> Inr (w\<lparr>users := filter (\<lambda>u. u_id u \<noteq> u_id user) (users w)\<rparr>))"

subsection \<open>The delete helper of the upload middleware\<close>

text \<open>
  \<^verbatim>\<open>deleteFromS3\<close> (lines 187 to 198). The module that defines it does not import
  \<^verbatim>\<open>DeleteObjectCommand\<close> (lines 1 to 7), so as written \<^verbatim>\<open>new DeleteObjectCommand\<close> throws
  a \<^verbatim>\<open>ReferenceError\<close> inside the \<^verbatim>\<open>try\<close> block. Whether the name is bound is the
  parameter \<open>bound\<close>: \<^const>\<open>False\<close> is the module as written. The first component of the
  result is what the caller's \<^verbatim>\<open>await\<close> sees, \<^const>\<open>Inl\<close> an error thrown to the caller.
\<close>

definition deleteFromS3 :: "bool \<Rightarrow> env \<Rightarrow> string \<Rightarrow> world \<Rightarrow> (js_error + unit) \<times> world" where
  "deleteFromS3 bound e key w =
     (if \<not> isPathSafe key then
        (Inr (), log (ConsoleError txt_s3_delete_failed (Error txt_unsafe_path)) w)
      else if \<not> bound then
        (Inr (), log (ConsoleError txt_s3_delete_failed
                        (ReferenceError ''DeleteObjectCommand is not defined'')) w)
      else
        (let command = DeleteObjectCommand (process_env e ''AWS_S3_BUCKET_NAME'') key;
             w1 = call_store (Send command) w
         in case s3_send e command of
              Some error \<Rightarrow> (Inr (), log (ConsoleError txt_s3_delete_failed error) w1)
            | None \<Rightarrow> (Inr (), w1)))"

section \<open>The file controller\<close>

definition getFileFromRequest :: "env \<Rightarrow> request \<Rightarrow> world \<Rightarrow> js_error + file_doc" where
  "getFileFromRequest e req w =
     (let token = js_or (header_auth_token req) (query_token req);
          sessionId = js_or (header_session_id req) (query_sessionId req)
      in case params_filename req of
           None \<Rightarrow> Inl (Error ''Invalid filename'')
         | Some filename \<Rightarrow>
             if filename = [] then Inl (Error ''Invalid filename'')
             else if \<not> truthy token \<or> \<not> truthy sessionId then
               Inl (Error ''Authentication required'')
             else
               (case File_findOne_filename e w filename of
                  Inl error \<Rightarrow> Inl error
                | Inr None \<Rightarrow> Inl (Error ''File not found in database'')
                | Inr (Some file) \<Rightarrow>
                    (case Message_findOne_file e w (f_id file) of
                       Inl error \<Rightarrow> Inl error
                     | Inr None \<Rightarrow> Inl (Error ''File message not found'')
                     | Inr (Some message) \<Rightarrow>
                         (case Room_findOne_participant e w (m_room message) (user_id req) of
                            Inl error \<Rightarrow> Inl error
                          | Inr None \<Rightarrow> Inl (Error ''Unauthorized access'')
                          | Inr (Some room) \<Rightarrow> Inr file))))"

definition errorResponses :: "(string \<times> nat \<times> string) list" where
  "errorResponses =
     [(''Invalid filename'', 400, txt_bad_filename),
      (''Authentication required'', 401, txt_auth_required),
      (''Invalid file path'', 400, txt_bad_path),
      (''File not found in database'', 404, txt_file_not_found),
      (''File message not found'', 404, txt_message_not_found),
      (''Unauthorized access'', 403, txt_no_access),
      (''ENOENT'', 404, txt_file_not_found)]"

definition handleFileError :: "js_error \<Rightarrow> world \<Rightarrow> response \<times> world" where
  "handleFileError error w =
     (let w1 = log (ConsoleErrorFields ''File operation error:''
                      [(''message'', err_message error), (''stack'', err_stack error)]) w
      in case js_get errorResponses (err_message error) of
           Own (status, message) \<Rightarrow>
             (Json status [(''success'', JBool False), (''message'', JStr message)], w1)
         | Inherited \<Rightarrow> (StatusUndefined [(''success'', JBool False)], w1)
         | Absent \<Rightarrow>
             (Json 500 [(''success'', JBool False), (''message'', JStr txt_processing_failed)],
              w1))"

definition pop_segment :: "string \<Rightarrow> string" where
  \<comment> \<open>\<^verbatim>\<open>key.split('/').pop()\<close>\<close>
  "pop_segment key = rev (takeWhile (\<lambda>c. c \<noteq> CHR ''/'') (rev key))"

definition uploadFile :: "env \<Rightarrow> request \<Rightarrow> world \<Rightarrow> response \<times> world" where
  "uploadFile e req w =
     (case req_file req of
        None \<Rightarrow>
          (Json 400 [(''success'', JBool False), (''message'', JStr txt_no_file_selected)], w)
      | Some rf \<Rightarrow>
          (let safeFilename = pop_segment (sf_key rf);
               s3Key = sf_key rf;
               s3Url = sf_location rf;
               file = \<lparr>f_id = newObjectId e, f_filename = safeFilename,
                       f_originalname = sf_originalname rf, f_mimetype = sf_mimetype rf,
                       f_size = sf_size rf, f_user = user_id req, f_path = s3Key,
                       f_url = s3Url, f_uploadDate = now e\<rparr>
           in case file_save e w file of
                Inl error \<Rightarrow>
                  (Json 500 [(''success'', JBool False), (''message'', JStr txt_upload_failed),
                             (''error'', JStr (err_message error))],
                   log (ConsoleError ''File upload error:'' error) w)
              | Inr w1 \<Rightarrow>
                  (Json 200
                     [(''success'', JBool True), (''message'', JStr txt_upload_success),
                      (''file'', JObj
                         [(''_id'', JStr (f_id file)), (''filename'', JStr (f_filename file)),
                          (''originalname'', JStr (f_originalname file)),
                          (''mimetype'', JStr (f_mimetype file)), (''size'', JNum (f_size file)),
                          (''uploadDate'', JNum (f_uploadDate file)),
                          (''url'', JStr (f_url file))])],
                   w1)))"

definition downloadFile :: "env \<Rightarrow> request \<Rightarrow> world \<Rightarrow> response \<times> world" where
  "downloadFile e req w =
     (case getFileFromRequest e req w of
        Inl error \<Rightarrow> handleFileError error w
      | Inr file \<Rightarrow>
          (let command = GetObjectCommand (process_env e ''AWS_BUCKET_NAME'') (f_path file)
                           (Some (''attachment; filename='' @ [CHR 0x22]
                                  @ encodeURIComponent e (f_originalname file) @ [CHR 0x22]));
               w1 = call_store (Presign command 60) w
           in case getSignedUrl e command 60 of
                Inl error \<Rightarrow> handleFileError error w1
              | Inr signedUrl \<Rightarrow> (Redirect signedUrl, w1)))"

definition viewFile :: "env \<Rightarrow> request \<Rightarrow> world \<Rightarrow> response \<times> world" where
  "viewFile e req w =
     (case getFileFromRequest e req w of
        Inl error \<Rightarrow> handleFileError error w
      | Inr file \<Rightarrow>
          if \<not> isPreviewable e file then
            (Json 415 [(''success'', JBool False), (''message'', JStr txt_no_preview)], w)
          else
            (let command = GetObjectCommand (process_env e ''AWS_BUCKET_NAME'') (f_path file) None;
                 w1 = call_store (Presign command 60) w
             in case getSignedUrl e command 60 of
                  Inl error \<Rightarrow> handleFileError error w1
                | Inr signedUrl \<Rightarrow> (Redirect signedUrl, w1)))"

definition deleteFile_caught :: "js_error \<Rightarrow> world \<Rightarrow> response \<times> world" where
  \<comment> \<open>the \<^verbatim>\<open>catch\<close> branch of \<^verbatim>\<open>deleteFile\<close>, lines 207 to 210\<close>
  "deleteFile_caught error w =
     (Json 500 [(''success'', JBool False), (''message'', JStr txt_delete_failed),
                (''error'', JStr (err_message error))],
      log (ConsoleError ''File deletion error:'' error) w)"

definition deleteFile :: "env \<Rightarrow> request \<Rightarrow> world \<Rightarrow> response \<times> world" where
  "deleteFile e req w =
     (case File_findById_id e w (params_id req) of
        Inl error \<Rightarrow> deleteFile_caught error w
      | Inr None \<Rightarrow>
          (Json 404 [(''success'', JBool False), (''message'', JStr txt_file_not_found)], w)
      | Inr (Some file) \<Rightarrow>
          if f_user file \<noteq> user_id req then
            (Json 403 [(''success'', JBool False), (''message'', JStr txt_no_delete_permission)],
             w)
          else
            (let deleteCommand = DeleteObjectCommand (process_env e ''AWS_BUCKET_NAME'')
                                   (f_path file);
                 w1 = call_store (Send deleteCommand) w
             in case s3_send e deleteCommand of
                  Some error \<Rightarrow> deleteFile_caught error w1
                | None \<Rightarrow>
                    (case file_deleteOne e w1 file of
                       Inl error \<Rightarrow> deleteFile_caught error w1
                     | Inr w2 \<Rightarrow>
                         (Json 200 [(''success'', JBool True), (''message'', JStr txt_file_deleted)],
                          w2))))"

section \<open>The user controller\<close>

subsection \<open>The key of a profile image\<close>

text \<open>
  \<^verbatim>\<open>profileImage.replace(/^.*\/uploads\//, 'uploads/')\<close>. The dot matches no line
  terminator (LF, CR, U+2028, U+2029) and the star is greedy, so the match ends with
  the last \<^verbatim>\<open>/uploads/\<close> of the part of the string before its first line terminator.
  A string with no match is returned as it is.
\<close>

fun lineHead :: "string \<Rightarrow> string" where
  "lineHead [] = []"
| "lineHead (c # cs) =
     (if c = CHR 0x0A \<or> c = CHR 0x0D then []
      else if c = CHR 0xE2 \<and> (take 2 cs = [CHR 0x80, CHR 0xA8] \<or> take 2 cs = [CHR 0x80, CHR 0xA9])
      then []
      else c # lineHead cs)"

definition uploadsKey :: "string \<Rightarrow> string" where
  "uploadsKey s =
     (let h = lineHead s in
      case find (\<lambda>n. take 9 (drop n h) = ''/uploads/'') (rev [0..<length h]) of
        None \<Rightarrow> s
      | Some n \<Rightarrow> ''uploads/'' @ drop (n + 9) s)"

subsection \<open>The profile cache service\<close>

definition getCacheKey :: "string \<Rightarrow> string" where
  "getCacheKey userId = ''user_profile:'' @ userId"

text \<open>
  \<^verbatim>\<open>updateProfile\<close> logs and rethrows what it catches; \<^verbatim>\<open>invalidateProfile\<close> logs it and
  returns. The first component of the result of the former is what its caller's
  \<^verbatim>\<open>await\<close> sees.
\<close>

definition ProfileCache_updateProfile ::
  "env \<Rightarrow> string \<Rightarrow> user_doc \<Rightarrow> world \<Rightarrow> (js_error + unit) \<times> world" where
  "ProfileCache_updateProfile e userId profileData w =
     (if userId = [] then
        (let error = Error ''User ID and profile data are required''
         in (Inl error, log (ConsoleError ''Profile cache update error:'' error) w))
      else
        (let cacheKey = getCacheKey userId in
         case redis_fault e (Redis_setEx cacheKey) of
           Some error \<Rightarrow> (Inl error, log (ConsoleError ''Profile cache update error:'' error) w)
         | None \<Rightarrow>
             (Inr (),
              log (ConsoleLog (txt_cache_update @ userId))
                (w\<lparr>profile_cache :=
                     (cacheKey, profileData)
                     # filter (\<lambda>p. fst p \<noteq> cacheKey) (profile_cache w)\<rparr>))))"

definition ProfileCache_invalidateProfile :: "env \<Rightarrow> string \<Rightarrow> world \<Rightarrow> world" where
  "ProfileCache_invalidateProfile e userId w =
     (if userId = [] then
        log (ConsoleError ''Profile cache invalidation error:'' (Error ''User ID is required'')) w
      else
        (let cacheKey = getCacheKey userId in
         case redis_fault e (Redis_del cacheKey) of
           Some error \<Rightarrow> log (ConsoleError ''Profile cache invalidation error:'' error) w
         | None \<Rightarrow>
             (let w1 = w\<lparr>profile_cache := filter (\<lambda>p. fst p \<noteq> cacheKey) (profile_cache w)\<rparr>
              in if cacheKey \<in> fst ` set (profile_cache w)
                 then log (ConsoleLog (txt_cache_invalidated @ userId)) w1
                 else w1)))"

subsection \<open>Handlers\<close>

text \<open>
  The three handlers that delete a stored profile image. Each wraps the store call in a
  \<^verbatim>\<open>try\<close> of its own, whose \<^verbatim>\<open>catch\<close> only writes to the console.
\<close>

definition uploadProfileImage_caught :: "js_error \<Rightarrow> world \<Rightarrow> response \<times> world" where
  "uploadProfileImage_caught error w =
     (Json 500 [(''success'', JBool False), (''message'', JStr txt_image_save_failed)],
      log (ConsoleError ''setProfileImage error:'' error) w)"

definition uploadProfileImage :: "env \<Rightarrow> request \<Rightarrow> world \<Rightarrow> response \<times> world" where
  "uploadProfileImage e req w =
     (let userId = user_id req in
      if \<not> truthy (body_profileImage req) then
        (Json 400 [(''success'', JBool False), (''message'', JStr txt_image_missing)], w)
      else
        (let profileImage = (case body_profileImage req of Some s \<Rightarrow> s | None \<Rightarrow> []) in
         case User_findById_id e w userId of
           Inl error \<Rightarrow> uploadProfileImage_caught error w
         | Inr None \<Rightarrow>
             (Json 404 [(''success'', JBool False), (''message'', JStr txt_user_not_found)], w)
         | Inr (Some user) \<Rightarrow>
             (let w1 =
                (if u_profileImage user \<noteq> [] then
                   (let key = uploadsKey (u_profileImage user);
                        command = DeleteObjectCommand (process_env e ''AWS_BUCKET_NAME'') key;
                        w' = call_store (Send command) w
                    in case s3_send e command of
                         Some err \<Rightarrow> log (ConsoleWarn txt_old_image_delete_failed (err_message err)) w'
                       | None \<Rightarrow> w')
                 else w);
                  user' = user\<lparr>u_profileImage :=
                            ''https://''
                            @ (case process_env e ''AWS_BUCKET_NAME'' of
                                 Some b \<Rightarrow> b | None \<Rightarrow> ''undefined'')
                            @ ''.s3.ap-northeast-2.amazonaws.com/'' @ profileImage\<rparr>
              in case user_save e w1 user' of
                   Inl error \<Rightarrow> uploadProfileImage_caught error w1
                 | Inr w2 \<Rightarrow>
                     (case ProfileCache_updateProfile e userId user' w2 of
                        (Inl error, w3) \<Rightarrow> uploadProfileImage_caught error w3
                      | (Inr u, w3) \<Rightarrow>
                          (Json 200 [(''success'', JBool True), (''message'', JStr txt_image_saved),
                                     (''profileImage'', JStr profileImage)],
                           w3)))))"

definition deleteProfileImage_caught :: "js_error \<Rightarrow> world \<Rightarrow> response \<times> world" where
  "deleteProfileImage_caught error w =
     (Json 500 [(''success'', JBool False), (''message'', JStr txt_image_delete_failed)],
      log (ConsoleError ''Delete profile image error:'' error) w)"

definition deleteProfileImage :: "env \<Rightarrow> request \<Rightarrow> world \<Rightarrow> response \<times> world" where
  "deleteProfileImage e req w =
     (let userId = user_id req in
      case User_findById_id e w userId of
        Inl error \<Rightarrow> deleteProfileImage_caught error w
      | Inr None \<Rightarrow>
          (Json 404 [(''success'', JBool False), (''message'', JStr txt_user_not_found)], w)
      | Inr (Some user) \<Rightarrow>
          if u_profileImage user \<noteq> [] then
            (let key = uploadsKey (u_profileImage user);
                 command = DeleteObjectCommand (process_env e ''AWS_BUCKET_NAME'') key;
                 w' = call_store (Send command) w;
                 w1 = (case s3_send e command of
                         Some error \<Rightarrow> log (ConsoleError ''Profile image delete error:'' error) w'
                       | None \<Rightarrow> w');
                 user' = user\<lparr>u_profileImage := []\<rparr>
             in case user_save e w1 user' of
                  Inl error \<Rightarrow> deleteProfileImage_caught error w1
                | Inr w2 \<Rightarrow>
                    (case ProfileCache_updateProfile e userId user' w2 of
                       (Inl error, w3) \<Rightarrow> deleteProfileImage_caught error w3
                     | (Inr u, w3) \<Rightarrow>
                         (Json 200 [(''success'', JBool True), (''message'', JStr txt_image_deleted)],
                          w3)))
          else
            (Json 200 [(''success'', JBool True), (''message'', JStr txt_image_deleted)], w))"

definition deleteAccount_caught :: "js_error \<Rightarrow> world \<Rightarrow> response \<times> world" where
  "deleteAccount_caught error w =
     (Json 500 [(''success'', JBool False), (''message'', JStr txt_account_delete_failed)],
      log (ConsoleError ''Delete account error:'' error) w)"

definition deleteAccount :: "env \<Rightarrow> request \<Rightarrow> world \<Rightarrow> response \<times> world" where
  "deleteAccount e req w =
     (let userId = user_id req in
      case User_findById_id e w userId of
        Inl error \<Rightarrow> deleteAccount_caught error w
      | Inr None \<Rightarrow>
          (Json 404 [(''success'', JBool False), (''message'', JStr txt_user_not_found)], w)
      | Inr (Some user) \<Rightarrow>
          (let w1 =
             (if u_profileImage user \<noteq> [] then
                (let key = uploadsKey (u_profileImage user);
                     command = DeleteObjectCommand (process_env e ''AWS_S3_BUCKET_NAME'') key;
                     w' = call_store (Send command) w
                 in case s3_send e command of
                      Some error \<Rightarrow> log (ConsoleError ''Profile image delete error:'' error) w'
                    | None \<Rightarrow> w')
              else w)
           in case user_deleteOne e w1 user of
                Inl error \<Rightarrow> deleteAccount_caught error w1
              | Inr w2 \<Rightarrow>
                  (let w3 = ProfileCache_invalidateProfile e userId w2
                   in (Json 200 [(''success'', JBool True), (''message'', JStr txt_account_deleted)],
                       w3))))"

section \<open>A small installation\<close>

text \<open>
  Concrete data for the examples below: one room with two participants, a third user
  outside it, and three files of the first user. The first file is as the upload
  handler stores it. The second has no message. The third has a path outside
  \<^verbatim>\<open>uploads/\<close>, as a record written before the move to the object store, or by any
  other writer of the collection, may have.
\<close>

definition photo :: file_doc where
  "photo = \<lparr>f_id = ''f1'', f_filename = ''1730000000123_0123456789abcdef.png'',
            f_originalname = ''photo.png'', f_mimetype = ''image/png'', f_size = 2048,
            f_user = ''alice'', f_path = ''uploads/1730000000123_0123456789abcdef.png'',
            f_url = ''https://chat-files.s3.amazonaws.com/uploads/1730000000123_0123456789abcdef.png'',
            f_uploadDate = 1730000000123\<rparr>"

definition orphan :: file_doc where
  "orphan = \<lparr>f_id = ''f2'', f_filename = ''1730000000456_00000000000000ff.png'',
             f_originalname = ''draft.png'', f_mimetype = ''image/png'', f_size = 1024,
             f_user = ''alice'', f_path = ''uploads/1730000000456_00000000000000ff.png'',
             f_url = ''https://chat-files.s3.amazonaws.com/uploads/1730000000456_00000000000000ff.png'',
             f_uploadDate = 1730000000456\<rparr>"

definition legacy :: file_doc where
  "legacy = \<lparr>f_id = ''f3'', f_filename = ''legacy.png'',
             f_originalname = ''legacy.png'', f_mimetype = ''image/png'', f_size = 512,
             f_user = ''alice'', f_path = ''private/legacy.png'',
             f_url = ''https://chat-files.s3.amazonaws.com/private/legacy.png'',
             f_uploadDate = 1700000000000\<rparr>"

definition sample_world :: world where
  "sample_world =
     \<lparr>files = [photo, orphan, legacy],
      messages = [\<lparr>m_id = ''m1'', m_room = ''r1'', m_file = Some ''f1''\<rparr>,
                  \<lparr>m_id = ''m2'', m_room = ''r1'', m_file = None\<rparr>,
                  \<lparr>m_id = ''m3'', m_room = ''r1'', m_file = Some ''f3''\<rparr>],
      rooms = [\<lparr>r_id = ''r1'', r_participants = [''alice'', ''bob'']\<rparr>],
      users = [\<lparr>u_id = ''alice'', u_name = ''Alice'', u_email = ''alice@example.org'',
                 u_profileImage =
                   ''https://chat-files.s3.ap-northeast-2.amazonaws.com/uploads/17_aa.png''\<rparr>,
               \<lparr>u_id = ''bob'', u_name = ''Bob'', u_email = ''bob@example.org'',
                 u_profileImage = ''''\<rparr>,
               \<lparr>u_id = ''carol'', u_name = ''Carol'', u_email = ''carol@example.org'',
                 u_profileImage = ''''\<rparr>],
      profile_cache = [],
      s3_calls = [],
      console = []\<rparr>"

definition bucket_env :: "string \<Rightarrow> string option" where
  "bucket_env k = (if k = ''AWS_BUCKET_NAME'' then Some ''chat-files'' else None)"

definition no_error :: "'a \<Rightarrow> js_error option" where
  "no_error c = None"

definition timed_out :: "s3_command \<Rightarrow> js_error option" where
  "timed_out c = Some (Error ''connect ETIMEDOUT 52.219.60.1:443'')"

definition sign :: "s3_command \<Rightarrow> nat \<Rightarrow> js_error + string" where
  "sign c ttl = Inr (''https://chat-files.s3.amazonaws.com/'' @ command_key c @ ''?X-Amz-Signature=5d'')"

definition image_type :: "file_doc \<Rightarrow> bool" where
  "image_type f = (take 6 (f_mimetype f) = ''image/'')"

definition sample_env :: env where
  "sample_env =
     \<lparr>process_env = bucket_env, s3_send = no_error, getSignedUrl = sign,
      catalog_fault = no_error, redis_fault = no_error, encodeURIComponent = id,
      isPreviewable = image_type, newObjectId = ''f9'', now = 1730000000999\<rparr>"

definition failing_store :: env where
  "failing_store = sample_env\<lparr>s3_send := timed_out\<rparr>"

definition get_request :: "string \<Rightarrow> string option \<Rightarrow> request" where
  \<comment> \<open>a read of a file by name, sent by a user, with token and session in the headers\<close>
  "get_request uid filename =
     \<lparr>params_filename = filename, params_id = '''',
      header_auth_token = Some ''token'', header_session_id = Some ''session'',
      query_token = None, query_sessionId = None, user_id = uid, req_file = None,
      body_profileImage = None\<rparr>"

definition delete_request :: "string \<Rightarrow> string \<Rightarrow> request" where
  "delete_request uid i =
     \<lparr>params_filename = None, params_id = i,
      header_auth_token = Some ''token'', header_session_id = Some ''session'',
      query_token = None, query_sessionId = None, user_id = uid, req_file = None,
      body_profileImage = None\<rparr>"

text \<open>
  Uploads. The first is a picture of 11MB. The second is named by the two bytes of
  U+012F and \<^verbatim>\<open>.png\<close>; multer hands such a name over read as Latin-1, two characters
  for the two bytes. The stored file is what the storage reports to the upload handler
  for the first.
\<close>

definition image11 :: multer_file where
  "image11 = \<lparr>originalname = ''photo.png'', mimetype = ''image/png'',
              size_bytes = 11 * 1024 * 1024\<rparr>"

definition ogonek_png :: multer_file where
  "ogonek_png = \<lparr>originalname = [CHR 0xC3, CHR 0x84, CHR 0xC2, CHR 0xAF] @ ''.png'',
                 mimetype = ''image/png'', size_bytes = 2048\<rparr>"

definition stored11 :: stored_file where
  "stored11 = \<lparr>sf_key = ''uploads/1730000000123_0123456789abcdef.png'',
               sf_location =
                 ''https://chat-files.s3.amazonaws.com/uploads/1730000000123_0123456789abcdef.png'',
               sf_originalname = ''photo.png'', sf_mimetype = ''image/png'',
               sf_size = 11 * 1024 * 1024\<rparr>"

definition upload_request :: "string \<Rightarrow> stored_file \<Rightarrow> request" where
  "upload_request uid rf =
     \<lparr>params_filename = None, params_id = [],
      header_auth_token = Some ''token'', header_session_id = Some ''session'',
      query_token = None, query_sessionId = None, user_id = uid, req_file = Some rf,
      body_profileImage = None\<rparr>"

definition refused :: "catalog_call \<Rightarrow> js_error option" where
  "refused c = Some (Error ''E11000 duplicate key error collection: chat.files'')"

definition failing_catalog :: env where
  "failing_catalog = sample_env\<lparr>catalog_fault := refused\<rparr>"

section \<open>The handlers, step by step\<close>

lemma s3_calls_log [simp]: "s3_calls (log l w) = s3_calls w"
  by (simp add: log_def)

lemma files_log [simp]: "files (log l w) = files w"
  by (simp add: log_def)

lemma users_log [simp]: "users (log l w) = users w"
  by (simp add: log_def)

lemma console_log [simp]: "console (log l w) = console w @ [l]"
  by (simp add: log_def)

lemma s3_calls_call_store [simp]: "s3_calls (call_store c w) = s3_calls w @ [c]"
  by (simp add: call_store_def)

lemma files_call_store [simp]: "files (call_store c w) = files w"
  by (simp add: call_store_def)

lemma users_call_store [simp]: "users (call_store c w) = users w"
  by (simp add: call_store_def)

lemma console_call_store [simp]: "console (call_store c w) = console w"
  by (simp add: call_store_def)

lemma s3_calls_handleFileError [simp]: "s3_calls (snd (handleFileError error w)) = s3_calls w"
  by (simp add: handleFileError_def Let_def split: property.splits prod.splits)

lemma files_handleFileError [simp]: "files (snd (handleFileError error w)) = files w"
  by (simp add: handleFileError_def Let_def split: property.splits prod.splits)

text \<open>The resolver on the sample installation.\<close>

lemma sample_lookups:
  "File_findOne_filename sample_env sample_world ''legacy.png'' = Inr (Some legacy)"
  "File_findOne_filename sample_env sample_world ''1730000000123_0123456789abcdef.png''
     = Inr (Some photo)"
  "File_findOne_filename sample_env sample_world ''1730000000456_00000000000000ff.png''
     = Inr (Some orphan)"
  "File_findOne_filename sample_env sample_world ''missing.png'' = Inr None"
  "File_findById_id sample_env sample_world ''f1'' = Inr (Some photo)"
  "File_findById_id sample_env sample_world ''f3'' = Inr (Some legacy)"
  "File_findById_id failing_store sample_world ''f1'' = Inr (Some photo)"
  by (simp_all add: File_findOne_filename_def File_findById_id_def sample_env_def
      failing_store_def sample_world_def no_error_def photo_def orphan_def legacy_def)

lemma sample_messages:
  "Message_findOne_file sample_env sample_world ''f1''
     = Inr (Some \<lparr>m_id = ''m1'', m_room = ''r1'', m_file = Some ''f1''\<rparr>)"
  "Message_findOne_file sample_env sample_world ''f2'' = Inr None"
  "Message_findOne_file sample_env sample_world ''f3''
     = Inr (Some \<lparr>m_id = ''m3'', m_room = ''r1'', m_file = Some ''f3''\<rparr>)"
  by (simp_all add: Message_findOne_file_def sample_env_def sample_world_def no_error_def)

lemma sample_rooms:
  "Room_findOne_participant sample_env sample_world ''r1'' ''bob''
     = Inr (Some \<lparr>r_id = ''r1'', r_participants = [''alice'', ''bob'']\<rparr>)"
  "Room_findOne_participant sample_env sample_world ''r1'' ''carol'' = Inr None"
  by (simp_all add: Room_findOne_participant_def sample_env_def sample_world_def no_error_def)

lemma sample_ids:
  "f_id photo = ''f1''" "f_id orphan = ''f2''" "f_id legacy = ''f3''"
  "f_user photo = ''alice''" "f_user legacy = ''alice''"
  "f_path photo = ''uploads/1730000000123_0123456789abcdef.png''"
  "f_path legacy = ''private/legacy.png''"
  "f_originalname photo = ''photo.png''" "f_originalname legacy = ''legacy.png''"
  "f_mimetype photo = ''image/png''" "f_mimetype legacy = ''image/png''"
  by (simp_all add: photo_def orphan_def legacy_def)

lemma sample_env_fields:
  "process_env sample_env ''AWS_BUCKET_NAME'' = Some ''chat-files''"
  "process_env failing_store ''AWS_BUCKET_NAME'' = Some ''chat-files''"
  "s3_send sample_env c = None"
  "s3_send failing_store c = Some (Error ''connect ETIMEDOUT 52.219.60.1:443'')"
  "getSignedUrl sample_env c ttl
     = Inr (''https://chat-files.s3.amazonaws.com/'' @ command_key c @ ''?X-Amz-Signature=5d'')"
  "catalog_fault sample_env k = None"
  "catalog_fault failing_store k = None"
  "encodeURIComponent sample_env s = s"
  "isPreviewable sample_env f = (take 6 (f_mimetype f) = ''image/'')"
  by (simp_all add: sample_env_def failing_store_def bucket_env_def no_error_def timed_out_def
      sign_def image_type_def)

lemma sample_request_fields:
  "params_filename (get_request uid fn) = fn"
  "header_auth_token (get_request uid fn) = Some ''token''"
  "header_session_id (get_request uid fn) = Some ''session''"
  "query_token (get_request uid fn) = None"
  "query_sessionId (get_request uid fn) = None"
  "user_id (get_request uid fn) = uid"
  "params_id (delete_request uid i) = i"
  "user_id (delete_request uid i) = uid"
  by (simp_all add: get_request_def delete_request_def)

lemmas sample_simps =
  sample_lookups sample_messages sample_rooms sample_ids sample_env_fields sample_request_fields

lemma sample_world_fields:
  "s3_calls sample_world = []" "console sample_world = []"
  "files sample_world = [photo, orphan, legacy]"
  by (simp_all add: sample_world_def)

section \<open>The file filter: content types and extensions\<close>

lemma getFileType_image: "split0 mt = ''image'' \<Longrightarrow> getFileType mt = txt_image"
  by (simp add: getFileType_def js_get_def typeMap_def txt_image_def)

lemma getFileType_video: "split0 mt = ''video'' \<Longrightarrow> getFileType mt = txt_video"
  by (simp add: getFileType_def js_get_def typeMap_def txt_video_def)

lemma getFileType_audio: "split0 mt = ''audio'' \<Longrightarrow> getFileType mt = txt_audio"
  by (simp add: getFileType_def js_get_def typeMap_def txt_audio_def)

lemma getFileType_application: "split0 mt = ''application'' \<Longrightarrow> getFileType mt = txt_document"
  by (simp add: getFileType_def js_get_def typeMap_def txt_document_def)

text \<open>
  The category \<^const>\<open>getFileType\<close> names depends on the part of the content type before the
  first slash. When that part is not the name of an inherited member, it is one of the
  four families or the word for a file.
\<close>

lemma getFileType_category:
  "split0 mt \<notin> set objectPrototypeKeys \<Longrightarrow>
   getFileType mt =
     (if split0 mt = ''image'' then txt_image
      else if split0 mt = ''video'' then txt_video
      else if split0 mt = ''audio'' then txt_audio
      else if split0 mt = ''application'' then txt_document
      else txt_file)"
  by (simp add: getFileType_def js_get_def typeMap_def txt_image_def txt_video_def
      txt_audio_def txt_document_def)

lemma inherited_names_whole: "list_all (\<lambda>k. split0 k = k) objectPrototypeKeys"
  by (simp add: objectPrototypeKeys_def split0_def)

lemma inherited_not_allowed:
  "list_all (\<lambda>k. map_of ALLOWED_TYPES k = None) objectPrototypeKeys"
  by (simp add: ALLOWED_TYPES_def objectPrototypeKeys_def)

lemma allowed_families:
  "list_all (\<lambda>(mt, exts). split0 mt \<in> {''image'', ''video'', ''audio'', ''application''})
     ALLOWED_TYPES"
  by (simp add: ALLOWED_TYPES_def split0_def)

lemma families_not_inherited:
  "t \<in> {''image'', ''video'', ''audio'', ''application''} \<Longrightarrow> t \<notin> set objectPrototypeKeys"
  by (auto simp: objectPrototypeKeys_def)

lemma allowed_category:
  assumes "map_of ALLOWED_TYPES mt = Some exts"
  shows "split0 mt \<notin> set objectPrototypeKeys"
proof -
  from assms have "(mt, exts) \<in> set ALLOWED_TYPES"
    by (rule map_of_SomeD)
  with allowed_families
  have "split0 mt \<in> {''image'', ''video'', ''audio'', ''application''}"
    by (auto simp: list_all_iff)
  then show ?thesis
    by (rule families_not_inherited)
qed

lemma not_inherited_whole:
  assumes "split0 mt \<notin> set objectPrototypeKeys"
  shows "mt \<notin> set objectPrototypeKeys"
proof
  assume "mt \<in> set objectPrototypeKeys"
  with inherited_names_whole have "split0 mt = mt"
    by (simp add: list_all_iff)
  with assms \<open>mt \<in> set objectPrototypeKeys\<close> show False
    by simp
qed

text \<open>
  Every pair of the table is accepted, here with the file name \<^verbatim>\<open>file\<close> followed by the
  extension.
\<close>

lemma allow_list_pairs_accepted:
  "list_all
     (\<lambda>(mt, exts).
        list_all
          (\<lambda>ext. fst (fileFilter id \<lparr>originalname = ''file'' @ ext, mimetype = mt,
                                        size_bytes = 0\<rparr>)
                  = Inr \<lparr>originalname = ''file'' @ ext, mimetype = mt, size_bytes = 0\<rparr>)
          exts)
     ALLOWED_TYPES"
  by code_simp

text \<open>
  A content type that is the name of an inherited member passes the test of line 99,
  and the call of \<^verbatim>\<open>includes\<close> on it (line 109) throws. The upload is rejected with that
  error, which the \<^verbatim>\<open>catch\<close> branch also writes to the console.
\<close>

lemma fileFilter_inherited_type:
  assumes "mimetype file \<in> set objectPrototypeKeys"
    and "length (dec (originalname file)) \<le> 255"
  shows "fileFilter dec file =
     (Inl (TypeError ''ALLOWED_TYPES[file.mimetype].includes is not a function''),
      [ConsoleError ''File filter error:''
         (TypeError ''ALLOWED_TYPES[file.mimetype].includes is not a function'')])"
proof -
  from assms(1) inherited_not_allowed have "map_of ALLOWED_TYPES (mimetype file) = None"
    by (simp add: list_all_iff)
  with assms have "js_get ALLOWED_TYPES (mimetype file) = Inherited"
    by (simp add: js_get_def)
  with assms(2) show ?thesis
    by (simp add: fileFilter_def Let_def)
qed

text \<open>
  Claim C4, as stated, fails, in three ways. The check of the name's length (line 104)
  stands between the check of the content type and the check of the extension. So a
  file whose extension is not permitted for its content type is answered with the error
  for a name that is too long when its name has more than 255 bytes: here a name of 256
  bytes that ends in \<^verbatim>\<open>.exe\<close>, declared as \<^verbatim>\<open>image/png\<close>. For the same reason a pair of
  the table is rejected when the name is too long: here a name of 256 bytes that ends
  in \<^verbatim>\<open>.png\<close>. And the type error names no category when the part of the content type
  before the slash is the name of an inherited member: for \<^verbatim>\<open>constructor/png\<close> it shows
  the text of a function.
\<close>

theorem fileFilter_extension_error_counterexample:
  "toLowerCase (extname (id (replicate 252 (CHR ''a'') @ ''.exe''))) \<notin> set [''.png''] \<and>
   map_of ALLOWED_TYPES ''image/png'' = Some [''.png''] \<and>
   fst (fileFilter id \<lparr>originalname = replicate 252 (CHR ''a'') @ ''.exe'',
                        mimetype = ''image/png'', size_bytes = 1024\<rparr>)
     = Inl (Error txt_name_too_long) \<and>
   Error txt_name_too_long \<noteq> Error (getFileType ''image/png'' @ txt_bad_extension_post) \<and>
   toLowerCase (extname (id (replicate 252 (CHR ''a'') @ ''.png''))) \<in> set [''.png''] \<and>
   fst (fileFilter id \<lparr>originalname = replicate 252 (CHR ''a'') @ ''.png'',
                        mimetype = ''image/png'', size_bytes = 1024\<rparr>)
     = Inl (Error txt_name_too_long) \<and>
   map_of ALLOWED_TYPES ''constructor/png'' = None \<and>
   fst (fileFilter id \<lparr>originalname = ''a.png'', mimetype = ''constructor/png'',
                        size_bytes = 1024\<rparr>)
     = Inl (Error (txt_unsupported_pre @ ''function Object() { [native code] }''
                   @ txt_unsupported_post)) \<and>
   ''function Object() { [native code] }''
     \<notin> set [txt_image, txt_video, txt_audio, txt_document, txt_file]"
  by code_simp

text \<open>
  Claim C4, amended. The filter accepts exactly the uploads whose decoded name has at
  most 255 bytes and whose declared content type the table maps to a list that holds
  the lower-cased extension of the name. A content type that the table does not know is
  rejected, whatever the name, with the error for an unsupported format, which names
  the category of the part before the slash: image, video, audio, document for
  \<^verbatim>\<open>application\<close>, and the word for a file for any other part that is not the name of
  an inherited member. A content type of the table, with a name of at most 255 bytes
  whose extension is outside its list, is rejected with the extension error of its
  category; and every pair of the table, with such a name, is accepted, the file handed
  on with its decoded name.
\<close>

theorem fileFilter_allow_list:
  "((\<exists>f. fst (fileFilter dec file) = Inr f) \<longleftrightarrow>
      length (dec (originalname file)) \<le> 255 \<and>
      (\<exists>exts. map_of ALLOWED_TYPES (mimetype file) = Some exts \<and>
         toLowerCase (extname (dec (originalname file))) \<in> set exts)) \<and>
   (map_of ALLOWED_TYPES (mimetype file) = None \<longrightarrow>
    split0 (mimetype file) \<notin> set objectPrototypeKeys \<longrightarrow>
      fst (fileFilter dec file) =
        Inl (Error (txt_unsupported_pre @
               (if split0 (mimetype file) = ''image'' then txt_image
                else if split0 (mimetype file) = ''video'' then txt_video
                else if split0 (mimetype file) = ''audio'' then txt_audio
                else if split0 (mimetype file) = ''application'' then txt_document
                else txt_file) @ txt_unsupported_post))) \<and>
   (\<forall>exts. map_of ALLOWED_TYPES (mimetype file) = Some exts \<longrightarrow>
      length (dec (originalname file)) \<le> 255 \<longrightarrow>
      toLowerCase (extname (dec (originalname file))) \<notin> set exts \<longrightarrow>
      fst (fileFilter dec file) =
        Inl (Error ((if split0 (mimetype file) = ''image'' then txt_image
                     else if split0 (mimetype file) = ''video'' then txt_video
                     else if split0 (mimetype file) = ''audio'' then txt_audio
                     else txt_document) @ txt_bad_extension_post))) \<and>
   (\<forall>exts. map_of ALLOWED_TYPES (mimetype file) = Some exts \<longrightarrow>
      length (dec (originalname file)) \<le> 255 \<longrightarrow>
      toLowerCase (extname (dec (originalname file))) \<in> set exts \<longrightarrow>
      fst (fileFilter dec file) = Inr (file\<lparr>originalname := dec (originalname file)\<rparr>))"
proof -
  have accepted: "(\<exists>f. fst (fileFilter dec file) = Inr f) \<longleftrightarrow>
      length (dec (originalname file)) \<le> 255 \<and>
      (\<exists>exts. map_of ALLOWED_TYPES (mimetype file) = Some exts \<and>
         toLowerCase (extname (dec (originalname file))) \<in> set exts)"
    by (auto simp: fileFilter_def js_get_def Let_def split: option.splits if_splits)
  have unknown: "fst (fileFilter dec file) =
        Inl (Error (txt_unsupported_pre @
               (if split0 (mimetype file) = ''image'' then txt_image
                else if split0 (mimetype file) = ''video'' then txt_video
                else if split0 (mimetype file) = ''audio'' then txt_audio
                else if split0 (mimetype file) = ''application'' then txt_document
                else txt_file) @ txt_unsupported_post))"
    if none: "map_of ALLOWED_TYPES (mimetype file) = None"
      and part: "split0 (mimetype file) \<notin> set objectPrototypeKeys"
  proof -
    from part have "mimetype file \<notin> set objectPrototypeKeys"
      by (rule not_inherited_whole)
    with none have "js_get ALLOWED_TYPES (mimetype file) = Absent"
      by (simp add: js_get_def)
    then show ?thesis
      by (simp add: fileFilter_def Let_def getFileType_category [OF part])
  qed
  have family: "getFileType (mimetype file) =
        (if split0 (mimetype file) = ''image'' then txt_image
         else if split0 (mimetype file) = ''video'' then txt_video
         else if split0 (mimetype file) = ''audio'' then txt_audio
         else txt_document)"
    if known: "map_of ALLOWED_TYPES (mimetype file) = Some exts" for exts
  proof -
    from known have "(mimetype file, exts) \<in> set ALLOWED_TYPES"
      by (rule map_of_SomeD)
    with allowed_families
    have "split0 (mimetype file) \<in> {''image'', ''video'', ''audio'', ''application''}"
      by (auto simp: list_all_iff)
    then show ?thesis
      using getFileType_image getFileType_video getFileType_audio getFileType_application
      by auto
  qed
  have mismatch: "fst (fileFilter dec file) =
        Inl (Error ((if split0 (mimetype file) = ''image'' then txt_image
                     else if split0 (mimetype file) = ''video'' then txt_video
                     else if split0 (mimetype file) = ''audio'' then txt_audio
                     else txt_document) @ txt_bad_extension_post))"
    if "map_of ALLOWED_TYPES (mimetype file) = Some exts"
      "length (dec (originalname file)) \<le> 255"
      "toLowerCase (extname (dec (originalname file))) \<notin> set exts" for exts
    using that family [of exts] by (simp add: fileFilter_def js_get_def Let_def)
  have match: "fst (fileFilter dec file) = Inr (file\<lparr>originalname := dec (originalname file)\<rparr>)"
    if "map_of ALLOWED_TYPES (mimetype file) = Some exts"
      "length (dec (originalname file)) \<le> 255"
      "toLowerCase (extname (dec (originalname file))) \<in> set exts" for exts
    using that by (simp add: fileFilter_def js_get_def Let_def)
  show ?thesis
    using accepted unknown mismatch match by blast
qed

theorem fileFilter_allow_list_witness:
  "fst (fileFilter id \<lparr>originalname = ''photo.PNG'', mimetype = ''image/png'',
                        size_bytes = 2048\<rparr>)
     = Inr \<lparr>originalname = ''photo.PNG'', mimetype = ''image/png'', size_bytes = 2048\<rparr> \<and>
   fst (fileFilter id \<lparr>originalname = ''setup.exe'', mimetype = ''image/png'',
                        size_bytes = 2048\<rparr>)
     = Inl (Error (txt_image @ txt_bad_extension_post)) \<and>
   fst (fileFilter id \<lparr>originalname = ''notes.txt'', mimetype = ''text/plain'',
                        size_bytes = 2048\<rparr>)
     = Inl (Error (txt_unsupported_pre @ txt_file @ txt_unsupported_post)) \<and>
   fst (fileFilter id \<lparr>originalname = replicate 300 (CHR ''a'') @ ''.zip'',
                        mimetype = ''application/zip'', size_bytes = 2048\<rparr>)
     = Inl (Error (txt_unsupported_pre @ txt_document @ txt_unsupported_post))"
proof -
  have png: "map_of ALLOWED_TYPES ''image/png'' = Some [''.png'']"
    and plain: "map_of ALLOWED_TYPES ''text/plain'' = None"
    and zip: "map_of ALLOWED_TYPES ''application/zip'' = None"
    by (simp_all add: ALLOWED_TYPES_def)
  have parts: "split0 ''image/png'' = ''image''" "split0 ''text/plain'' = ''text''"
    "split0 ''application/zip'' = ''application''"
    by (simp_all add: split0_def)
  have not_inherited: "''text'' \<notin> set objectPrototypeKeys"
    "''application'' \<notin> set objectPrototypeKeys"
    by (simp_all add: objectPrototypeKeys_def)
  have ext1: "toLowerCase (extname ''photo.PNG'') = ''.png''"
    and ext2: "toLowerCase (extname ''setup.exe'') = ''.exe''"
    by code_simp+
  have w1: "fst (fileFilter id \<lparr>originalname = ''photo.PNG'', mimetype = ''image/png'',
                        size_bytes = 2048\<rparr>)
     = Inr \<lparr>originalname = ''photo.PNG'', mimetype = ''image/png'', size_bytes = 2048\<rparr>"
    using fileFilter_allow_list
            [of id "\<lparr>originalname = ''photo.PNG'', mimetype = ''image/png'',
                     size_bytes = 2048\<rparr>"]
    by (simp add: png ext1)
  have w2: "fst (fileFilter id \<lparr>originalname = ''setup.exe'', mimetype = ''image/png'',
                        size_bytes = 2048\<rparr>)
     = Inl (Error (txt_image @ txt_bad_extension_post))"
    using fileFilter_allow_list
            [of id "\<lparr>originalname = ''setup.exe'', mimetype = ''image/png'',
                     size_bytes = 2048\<rparr>"]
    by (simp add: png ext2 parts)
  have w3: "fst (fileFilter id \<lparr>originalname = ''notes.txt'', mimetype = ''text/plain'',
                        size_bytes = 2048\<rparr>)
     = Inl (Error (txt_unsupported_pre @ txt_file @ txt_unsupported_post))"
    using fileFilter_allow_list
            [of id "\<lparr>originalname = ''notes.txt'', mimetype = ''text/plain'',
                     size_bytes = 2048\<rparr>"]
    by (simp add: plain parts not_inherited)
  have w4: "fst (fileFilter id \<lparr>originalname = replicate 300 (CHR ''a'') @ ''.zip'',
                        mimetype = ''application/zip'', size_bytes = 2048\<rparr>)
     = Inl (Error (txt_unsupported_pre @ txt_document @ txt_unsupported_post))"
    using fileFilter_allow_list
            [of id "\<lparr>originalname = replicate 300 (CHR ''a'') @ ''.zip'',
                     mimetype = ''application/zip'', size_bytes = 2048\<rparr>"]
    by (simp add: zip parts not_inherited)
  show ?thesis
    using w1 w2 w3 w4 by simp
qed

section \<open>The file filter: names that are too long\<close>

text \<open>
  Claim C8. An upload whose decoded file name is longer than 255 bytes is rejected by
  the file filter, whatever content type it declares: with the error for an unsupported
  format when the table has no entry at all for the content type, and with the error
  for a name that is too long in every other case.
\<close>

theorem fileFilter_rejects_long_name:
  "255 < length (dec (originalname file)) \<Longrightarrow>
   fst (fileFilter dec file) =
     Inl (case js_get ALLOWED_TYPES (mimetype file) of
            Absent \<Rightarrow> Error (txt_unsupported_pre @ getFileType (mimetype file)
                             @ txt_unsupported_post)
          | _ \<Rightarrow> Error txt_name_too_long)"
  by (cases "js_get ALLOWED_TYPES (mimetype file)") (simp_all add: fileFilter_def)

theorem fileFilter_rejects_long_name_witness:
  "255 < length (id (originalname \<lparr>originalname = replicate 252 (CHR ''a'') @ ''.png'',
                                     mimetype = ''image/png'', size_bytes = 1024\<rparr>)) \<and>
   fst (fileFilter id \<lparr>originalname = replicate 252 (CHR ''a'') @ ''.png'',
                        mimetype = ''image/png'', size_bytes = 1024\<rparr>)
     = Inl (Error txt_name_too_long)"
  using fileFilter_rejects_long_name
          [of id "\<lparr>originalname = replicate 252 (CHR ''a'') @ ''.png'',
                   mimetype = ''image/png'', size_bytes = 1024\<rparr>"]
  by (simp add: js_get_def ALLOWED_TYPES_def)

section \<open>The size policy\<close>

lemma decimal_small: "n < 10 \<Longrightarrow> decimal n = [digits ! n]"
  by (subst decimal.simps) simp

lemma decimal_large: "10 \<le> n \<Longrightarrow> decimal n = decimal (n div 10) @ [digits ! (n mod 10)]"
  by (subst decimal.simps) simp

lemma sizeLimit_eq:
  "sizeLimit t =
     (if t = ''image'' then Some (10 * 1024 * 1024)
      else if t = ''video'' then Some (50 * 1024 * 1024)
      else if t = ''audio'' then Some (20 * 1024 * 1024)
      else if t \<in> set objectPrototypeKeys then None
      else Some (20 * 1024 * 1024))"
  by (simp add: sizeLimit_def js_get_def FILE_SIZE_LIMITS_def objectPrototypeKeys_def)

lemma validateFileSize_over:
  "sizeLimit (split0 (mimetype file)) = Some limit \<Longrightarrow> limit < size_bytes file \<Longrightarrow>
   validateFileSize file =
     Inl (Error (getFileType (mimetype file) @ txt_size_mid @ decimal (limit div 1024 div 1024)
                 @ txt_size_end))"
  by (simp add: validateFileSize_def)

lemma validateFileSize_accepts:
  "sizeLimit (split0 (mimetype file)) = Some limit \<Longrightarrow>
   validateFileSize file = Inr True \<longleftrightarrow> size_bytes file \<le> limit"
  by (auto simp add: validateFileSize_def)

text \<open>
  A content type whose first part is the name of an inherited member has no limit in
  \<^const>\<open>validateFileSize\<close>: the comparison with a value that is not a number is false.
\<close>

lemma validateFileSize_inherited:
  "split0 (mimetype file) \<in> set objectPrototypeKeys \<Longrightarrow> validateFileSize file = Inr True"
  by (auto simp add: validateFileSize_def sizeLimit_eq objectPrototypeKeys_def)

lemma errorHandler_413:
  "fst (errorHandler (MulterError ''LIMIT_FILE_SIZE'' m)) =
     Json 413 [(''success'', JBool False), (''message'', JStr txt_limit_file_size)]"
  by (simp add: errorHandler_def MulterError_def)

text \<open>
  What \<^const>\<open>validateFileSize\<close> and the limit of the multer instance do, each taken alone:
  the limits of the four families, the rejection of a file above the limit of its
  family with the family's name and the limit in whole megabytes, and status 413 for a
  file above the ceiling.
\<close>

lemma validateFileSize_limits:
  "sizeLimit ''image'' = Some (10 * 1024 * 1024) \<and>
   sizeLimit ''video'' = Some (50 * 1024 * 1024) \<and>
   sizeLimit ''audio'' = Some (20 * 1024 * 1024) \<and>
   sizeLimit ''application'' = Some (20 * 1024 * 1024) \<and>
   limits_fileSize = 50 * 1024 * 1024"
  by (simp add: sizeLimit_eq objectPrototypeKeys_def limits_fileSize_def)

lemma multer_fileSize_cap:
  "limits_fileSize < n \<Longrightarrow>
   multer_fileSize n = Inl (MulterError ''LIMIT_FILE_SIZE'' ''File too large'')"
  by (simp add: multer_fileSize_def)

lemma validateFileSize_examples:
  "validateFileSize \<lparr>originalname = ''photo.png'', mimetype = ''image/png'',
                      size_bytes = 11 * 1024 * 1024\<rparr>
     = Inl (Error (txt_image @ txt_size_mid @ ''10'' @ txt_size_end))"
  "validateFileSize \<lparr>originalname = ''report.pdf'', mimetype = ''application/pdf'',
                      size_bytes = 21 * 1024 * 1024\<rparr>
     = Inl (Error (txt_document @ txt_size_mid @ ''20'' @ txt_size_end))"
proof -
  have d: "decimal 10 = ''10''" "decimal 20 = ''20''"
    by (simp_all add: decimal_small decimal_large digits_def)
  have s: "split0 ''image/png'' = ''image''" "split0 ''application/pdf'' = ''application''"
    by (simp_all add: split0_def)
  show "validateFileSize \<lparr>originalname = ''photo.png'', mimetype = ''image/png'',
                      size_bytes = 11 * 1024 * 1024\<rparr>
     = Inl (Error (txt_image @ txt_size_mid @ ''10'' @ txt_size_end))"
    using validateFileSize_over
            [of "\<lparr>originalname = ''photo.png'', mimetype = ''image/png'',
                   size_bytes = 11 * 1024 * 1024\<rparr>" "10 * 1024 * 1024"]
    by (simp add: d s sizeLimit_eq getFileType_image)
  show "validateFileSize \<lparr>originalname = ''report.pdf'', mimetype = ''application/pdf'',
                      size_bytes = 21 * 1024 * 1024\<rparr>
     = Inl (Error (txt_document @ txt_size_mid @ ''20'' @ txt_size_end))"
    using validateFileSize_over
            [of "\<lparr>originalname = ''report.pdf'', mimetype = ''application/pdf'',
                   size_bytes = 21 * 1024 * 1024\<rparr>" "20 * 1024 * 1024"]
    by (simp add: d s sizeLimit_eq getFileType_application objectPrototypeKeys_def)
qed

text \<open>
  Claim C5, evaluated. Nothing in the sources calls \<^const>\<open>validateFileSize\<close>: the multer
  instance is made of the storage, the limit of 50MB and the file filter (lines 122 to
  129), and the upload handler reads the stored file only. A picture of 11MB passes the
  filter, gets its key, stays under the limit of the instance, and is recorded by the
  handler with status 200. The function that would have rejected it, with the message
  of the claim, is the last line.
\<close>

theorem oversized_image_accepted:
  "fst (fileFilter binaryToUtf8 image11) = Inr image11 \<and>
   storage_key binaryToUtf8 1730000000123 0x0123456789abcdef image11
     = Inr ''uploads/1730000000123_0123456789abcdef.png'' \<and>
   multer_fileSize (size_bytes image11) = Inr () \<and>
   fst (uploadFile sample_env (upload_request ''alice'' stored11) sample_world) =
     Json 200
       [(''success'', JBool True), (''message'', JStr txt_upload_success),
        (''file'', JObj
           [(''_id'', JStr ''f9''),
            (''filename'', JStr ''1730000000123_0123456789abcdef.png''),
            (''originalname'', JStr ''photo.png''), (''mimetype'', JStr ''image/png''),
            (''size'', JNum (11 * 1024 * 1024)), (''uploadDate'', JNum 1730000000999),
            (''url'', JStr
               ''https://chat-files.s3.amazonaws.com/uploads/1730000000123_0123456789abcdef.png'')])] \<and>
   map f_size (files (snd (uploadFile sample_env (upload_request ''alice'' stored11)
                             sample_world)))
     = [2048, 1024, 512, 11 * 1024 * 1024] \<and>
   validateFileSize image11 = Inl (Error (txt_image @ txt_size_mid @ ''10'' @ txt_size_end))"
proof -
  have name: "binaryToUtf8 ''photo.png'' = ''photo.png''"
    by (simp add: binaryToUtf8_def char_of_def bit_Suc_0_iff)
  have ext: "toLowerCase (extname ''photo.png'') = ''.png''"
    by code_simp
  have ts: "decimal 1730000000123 = ''1730000000123''"
    by (simp add: decimal_small decimal_large digits_def)
  have rnd: "toHex 0x0123456789abcdef = ''0123456789abcdef''"
    by (simp add: toHex_def hexByte_def digits_def drop_bit_eq_div)
  have filter: "fst (fileFilter binaryToUtf8 image11) = Inr image11"
    by (simp add: fileFilter_def image11_def name ext js_get_def ALLOWED_TYPES_def)
  have key: "storage_key binaryToUtf8 1730000000123 0x0123456789abcdef image11
     = Inr ''uploads/1730000000123_0123456789abcdef.png''"
    by (simp add: storage_key_def image11_def name ext ts rnd allowedExtensions_def
        ALLOWED_TYPES_def)
  have cap: "multer_fileSize (size_bytes image11) = Inr ()"
    by (simp add: multer_fileSize_def image11_def limits_fileSize_def)
  have segment: "pop_segment ''uploads/1730000000123_0123456789abcdef.png''
                   = ''1730000000123_0123456789abcdef.png''"
    by (simp add: pop_segment_def)
  have saved: "uploadFile sample_env (upload_request ''alice'' stored11) sample_world =
     (Json 200
       [(''success'', JBool True), (''message'', JStr txt_upload_success),
        (''file'', JObj
           [(''_id'', JStr ''f9''),
            (''filename'', JStr ''1730000000123_0123456789abcdef.png''),
            (''originalname'', JStr ''photo.png''), (''mimetype'', JStr ''image/png''),
            (''size'', JNum (11 * 1024 * 1024)), (''uploadDate'', JNum 1730000000999),
            (''url'', JStr
               ''https://chat-files.s3.amazonaws.com/uploads/1730000000123_0123456789abcdef.png'')])],
      sample_world\<lparr>files := [photo, orphan, legacy,
         \<lparr>f_id = ''f9'', f_filename = ''1730000000123_0123456789abcdef.png'',
          f_originalname = ''photo.png'', f_mimetype = ''image/png'',
          f_size = 11 * 1024 * 1024, f_user = ''alice'',
          f_path = ''uploads/1730000000123_0123456789abcdef.png'',
          f_url = ''https://chat-files.s3.amazonaws.com/uploads/1730000000123_0123456789abcdef.png'',
          f_uploadDate = 1730000000999\<rparr>]\<rparr>)"
    by (simp add: uploadFile_def upload_request_def stored11_def segment file_save_def
        sample_env_def no_error_def sample_world_def photo_def orphan_def legacy_def Let_def)
  have sizes: "map f_size [photo, orphan, legacy] = [2048, 1024, 512]"
    by (simp add: photo_def orphan_def legacy_def)
  have validate: "validateFileSize image11
                    = Inl (Error (txt_image @ txt_size_mid @ ''10'' @ txt_size_end))"
    using validateFileSize_examples(1) by (simp add: image11_def)
  show ?thesis
    using filter key cap validate sizes by (simp add: saved)
qed

section \<open>The storage key\<close>

lemma digits_nth_hex: "n < 16 \<Longrightarrow> digits ! n \<in> set ''0123456789abcdef''"
  unfolding digits_def by (rule nth_mem) simp

lemma digits_nth_dec: "n < 10 \<Longrightarrow> digits ! n \<in> set ''0123456789''"
proof -
  assume "n < 10"
  then have "n \<in> {0, 1, 2, 3, 4, 5, 6, 7, 8, 9}" by auto
  then show ?thesis by (auto simp: digits_def)
qed

lemma decimal_digits: "set (decimal n) \<subseteq> set ''0123456789''"
proof (induction n rule: decimal.induct)
  case (1 n)
  show ?case
  proof (cases "n < 10")
    case True
    then show ?thesis using digits_nth_dec [of n] by (simp add: decimal_small)
  next
    case False
    then show ?thesis
      using 1 digits_nth_dec [of "n mod 10"] by (simp add: decimal_large)
  qed
qed

lemma decimal_nonempty: "decimal n \<noteq> []"
  by (subst decimal.simps) simp

lemma hexByte_digits: "set (hexByte b) \<subseteq> set ''0123456789abcdef''"
proof -
  have "unat b < 2 ^ 8" using unsigned_less [of b] by simp
  then have "unat b div 16 < 16" by simp
  then show ?thesis
    using digits_nth_hex [of "unat b div 16"] digits_nth_hex [of "unat b mod 16"]
    by (simp add: hexByte_def)
qed

lemma toHex_length: "length (toHex w) = 16"
  by (simp add: toHex_def hexByte_def)

lemma toHex_digits: "set (toHex w) \<subseteq> set ''0123456789abcdef''"
  using hexByte_digits by (auto simp: toHex_def)

text \<open>
  An extension that one of the lists of the table holds is an allowed extension of the
  key callback, so the callback gives a key to every name the filter accepts under the
  same decoding.
\<close>

lemma fileFilter_accepted_extension:
  assumes "fst (fileFilter dec file) = Inr f"
  shows "toLowerCase (extname (dec (originalname file))) \<in> set allowedExtensions"
proof -
  from assms obtain exts where
    "map_of ALLOWED_TYPES (mimetype file) = Some exts"
    "toLowerCase (extname (dec (originalname file))) \<in> set exts"
    by (auto simp: fileFilter_def js_get_def Let_def split: option.splits if_splits)
  moreover from this have "(mimetype file, exts) \<in> set ALLOWED_TYPES"
    by (simp add: map_of_SomeD)
  ultimately show ?thesis
    by (force simp: allowedExtensions_def)
qed

text \<open>
  What the key callback does with the name it is given: for a name whose decoded form
  has a lower-cased extension among the allowed ones it succeeds, and every key it
  gives is \<^verbatim>\<open>uploads/\<close>, the timestamp in decimal digits, an underscore, sixteen
  hexadecimal digits and that extension, and passes the path check.
\<close>

lemma storage_key_form:
  "(toLowerCase (extname (dec (originalname file))) \<in> set allowedExtensions \<longrightarrow>
      storage_key dec timestamp random file =
        Inr (''uploads/'' @ decimal timestamp @ ''_'' @ toHex random
             @ toLowerCase (extname (dec (originalname file))))) \<and>
   (\<forall>key. storage_key dec timestamp random file = Inr key \<longrightarrow>
      key = ''uploads/'' @ decimal timestamp @ ''_'' @ toHex random
            @ toLowerCase (extname (dec (originalname file))) \<and>
      toLowerCase (extname (dec (originalname file))) \<in> set allowedExtensions \<and>
      isPathSafe key) \<and>
   decimal timestamp \<noteq> [] \<and> set (decimal timestamp) \<subseteq> set ''0123456789'' \<and>
   length (toHex random) = 16 \<and> set (toHex random) \<subseteq> set ''0123456789abcdef''"
  using decimal_digits [of timestamp] decimal_nonempty [of timestamp]
    toHex_length [of random] toHex_digits [of random]
  by (auto simp: storage_key_def isPathSafe_def Let_def split: if_splits)

text \<open>
  The filter stores the decoded name in the file (line 113), and multer hands the same
  file to the storage. The key callback decodes the name again (line 52), so its
  extension is that of the name decoded twice.
\<close>

lemma key_after_filter:
  assumes "fst (fileFilter dec file) = Inr f"
  shows "storage_key dec timestamp random f =
     (if toLowerCase (extname (dec (dec (originalname file)))) \<notin> set allowedExtensions
      then Inl (Error txt_unsupported_extension)
      else Inr (''uploads/'' @ decimal timestamp @ ''_'' @ toHex random
                @ toLowerCase (extname (dec (dec (originalname file))))))"
proof -
  from assms have "f = file\<lparr>originalname := dec (originalname file)\<rparr>"
    by (auto simp: fileFilter_def Let_def split: property.splits if_splits)
  then show ?thesis
    by (simp add: storage_key_def Let_def)
qed

text \<open>
  Claim C6, evaluated. A file is named by the letter U+012F and \<^verbatim>\<open>.png\<close> and declared as
  \<^verbatim>\<open>image/png\<close>. The filter decodes the name, finds the extension \<^verbatim>\<open>.png\<close> in the list
  of the content type and accepts. The key callback encodes the decoded name as Latin-1
  again, which keeps of U+012F the byte of a slash: the name it reads is \<^verbatim>\<open>/.png\<close>, a
  name without extension, and it answers with the error for an unsupported extension.
  The accepted upload gets no key.
\<close>

theorem accepted_name_without_key:
  "fst (fileFilter binaryToUtf8 ogonek_png)
     = Inr \<lparr>originalname = [CHR 0xC4, CHR 0xAF] @ ''.png'', mimetype = ''image/png'',
            size_bytes = 2048\<rparr> \<and>
   toLowerCase (extname ([CHR 0xC4, CHR 0xAF] @ ''.png'')) = ''.png'' \<and>
   ''.png'' \<in> set allowedExtensions \<and>
   binaryToUtf8 ([CHR 0xC4, CHR 0xAF] @ ''.png'') = ''/.png'' \<and>
   extname ''/.png'' = [] \<and>
   storage_key binaryToUtf8 1730000000123 0x0123456789abcdef
       \<lparr>originalname = [CHR 0xC4, CHR 0xAF] @ ''.png'', mimetype = ''image/png'',
        size_bytes = 2048\<rparr>
     = Inl (Error txt_unsupported_extension)"
proof -
  have once: "binaryToUtf8 ([CHR 0xC3, CHR 0x84, CHR 0xC2, CHR 0xAF] @ ''.png'')
                = [CHR 0xC4, CHR 0xAF] @ ''.png''"
    by (simp add: binaryToUtf8_def continuation_def char_of_def bit_Suc_0_iff)
  have twice: "binaryToUtf8 ([CHR 0xC4, CHR 0xAF] @ ''.png'') = ''/.png''"
    by (simp add: binaryToUtf8_def char_of_def bit_Suc_0_iff)
  have ext: "toLowerCase (extname ([CHR 0xC4, CHR 0xAF] @ ''.png'')) = ''.png''"
    by code_simp
  have none: "extname ''/.png'' = []"
    by code_simp
  have allowed: "''.png'' \<in> set allowedExtensions" "[] \<notin> set allowedExtensions"
    by (simp_all add: allowedExtensions_def ALLOWED_TYPES_def)
  have filter: "fst (fileFilter binaryToUtf8 ogonek_png)
     = Inr \<lparr>originalname = [CHR 0xC4, CHR 0xAF] @ ''.png'', mimetype = ''image/png'',
            size_bytes = 2048\<rparr>"
    using once ext
    by (simp add: fileFilter_def ogonek_png_def js_get_def ALLOWED_TYPES_def)
  have key: "storage_key binaryToUtf8 1730000000123 0x0123456789abcdef
       \<lparr>originalname = [CHR 0xC4, CHR 0xAF] @ ''.png'', mimetype = ''image/png'',
        size_bytes = 2048\<rparr>
     = Inl (Error txt_unsupported_extension)"
    using twice none allowed
    by (simp add: storage_key_def toLowerCase_def)
  show ?thesis
    using filter ext allowed(1) twice none key by simp
qed

section \<open>The path check on the way to the store\<close>

text \<open>
  Once the resolver has found the file, the download handler signs a read of the file's
  path, whatever the path is, and so does the view handler; the delete handler sends
  the delete for the path of the owner's file. None of them calls \<^const>\<open>isPathSafe\<close>, and the
  function of that name in the file controller itself (lines 21 to 25) is called
  nowhere.
\<close>

lemma downloadFile_resolved:
  "getFileFromRequest e req w = Inr file \<Longrightarrow>
   s3_calls (snd (downloadFile e req w)) =
     s3_calls w @
     [Presign (GetObjectCommand (process_env e ''AWS_BUCKET_NAME'') (f_path file)
                 (Some (''attachment; filename='' @ [CHR 0x22]
                        @ encodeURIComponent e (f_originalname file) @ [CHR 0x22]))) 60]"
  by (simp add: downloadFile_def Let_def split: sum.splits)

lemma viewFile_resolved:
  "getFileFromRequest e req w = Inr file \<Longrightarrow> isPreviewable e file \<Longrightarrow>
   s3_calls (snd (viewFile e req w)) =
     s3_calls w @
     [Presign (GetObjectCommand (process_env e ''AWS_BUCKET_NAME'') (f_path file) None) 60]"
  by (simp add: viewFile_def Let_def split: sum.splits)

lemma deleteFile_owner_sends:
  "File_findById_id e w (params_id req) = Inr (Some file) \<Longrightarrow> f_user file = user_id req \<Longrightarrow>
   s3_calls (snd (deleteFile e req w)) =
     s3_calls w @ [Send (DeleteObjectCommand (process_env e ''AWS_BUCKET_NAME'') (f_path file))]"
  by (auto simp: deleteFile_def deleteFile_caught_def file_deleteOne_def Let_def
      split: option.splits sum.splits)

text \<open>
  Claim C1, evaluated. The third file of the sample installation has the path
  \<^verbatim>\<open>private/legacy.png\<close>, which does not pass the path check. A participant of the
  room downloads and views it, and the owner deletes it: each handler hands a command
  with that key to the store client. The delete helper of the upload middleware, for
  the same key, hands over nothing.
\<close>

theorem unchecked_key_reaches_store:
  "isPathSafe (f_path legacy) = False \<and>
   downloadFile sample_env (get_request ''bob'' (Some ''legacy.png'')) sample_world =
     (Redirect ''https://chat-files.s3.amazonaws.com/private/legacy.png?X-Amz-Signature=5d'',
      call_store
        (Presign (GetObjectCommand (Some ''chat-files'') ''private/legacy.png''
                    (Some (''attachment; filename='' @ [CHR 0x22] @ ''legacy.png'' @ [CHR 0x22])))
           60)
        sample_world) \<and>
   viewFile sample_env (get_request ''bob'' (Some ''legacy.png'')) sample_world =
     (Redirect ''https://chat-files.s3.amazonaws.com/private/legacy.png?X-Amz-Signature=5d'',
      call_store
        (Presign (GetObjectCommand (Some ''chat-files'') ''private/legacy.png'' None) 60)
        sample_world) \<and>
   s3_calls (snd (deleteFile sample_env (delete_request ''alice'' ''f3'') sample_world)) =
     [Send (DeleteObjectCommand (Some ''chat-files'') ''private/legacy.png'')] \<and>
   s3_calls (snd (deleteFromS3 True sample_env ''private/legacy.png'' sample_world)) = []"
proof -
  have resolved:
    "getFileFromRequest sample_env (get_request ''bob'' (Some ''legacy.png'')) sample_world
       = Inr legacy"
    by (simp add: getFileFromRequest_def sample_simps js_or_def truthy_def)
  have unsafe: "isPathSafe (f_path legacy) = False"
    by (simp add: isPathSafe_def sample_ids)
  have download:
    "downloadFile sample_env (get_request ''bob'' (Some ''legacy.png'')) sample_world =
     (Redirect ''https://chat-files.s3.amazonaws.com/private/legacy.png?X-Amz-Signature=5d'',
      call_store
        (Presign (GetObjectCommand (Some ''chat-files'') ''private/legacy.png''
                    (Some (''attachment; filename='' @ [CHR 0x22] @ ''legacy.png'' @ [CHR 0x22])))
           60)
        sample_world)"
    by (simp add: downloadFile_def resolved sample_simps)
  have view:
    "viewFile sample_env (get_request ''bob'' (Some ''legacy.png'')) sample_world =
     (Redirect ''https://chat-files.s3.amazonaws.com/private/legacy.png?X-Amz-Signature=5d'',
      call_store
        (Presign (GetObjectCommand (Some ''chat-files'') ''private/legacy.png'' None) 60)
        sample_world)"
    by (simp add: viewFile_def resolved sample_simps)
  have delete:
    "s3_calls (snd (deleteFile sample_env (delete_request ''alice'' ''f3'') sample_world)) =
     [Send (DeleteObjectCommand (Some ''chat-files'') ''private/legacy.png'')]"
    by (simp add: deleteFile_def file_deleteOne_def sample_simps sample_world_fields)
  have helper:
    "s3_calls (snd (deleteFromS3 True sample_env ''private/legacy.png'' sample_world)) = []"
    by (simp add: deleteFromS3_def isPathSafe_def sample_world_fields)
  show ?thesis
    using unsafe download view delete helper by simp
qed

section \<open>The authorization resolver\<close>

lemma token_truthy [simp]:
  "truthy (js_or a b) \<longleftrightarrow> truthy a \<or> truthy b"
  by (simp add: js_or_def)

lemma no_room_iff:
  "catalog_fault e (Room_findOne room_id uid) = None \<Longrightarrow>
   Room_findOne_participant e w room_id uid = Inr None \<longleftrightarrow>
     (\<forall>r \<in> set (rooms w). r_id r = room_id \<longrightarrow> uid \<notin> set (r_participants r))"
  by (auto simp: Room_findOne_participant_def find_None_iff)

lemma handleFileError_status:
  "fst (handleFileError (Error ''Invalid filename'') w) = failure 400 txt_bad_filename"
  "fst (handleFileError (Error ''Authentication required'') w) = failure 401 txt_auth_required"
  "fst (handleFileError (Error ''File not found in database'') w) = failure 404 txt_file_not_found"
  "fst (handleFileError (Error ''File message not found'') w) = failure 404 txt_message_not_found"
  "fst (handleFileError (Error ''Unauthorized access'') w) = failure 403 txt_no_access"
  by (simp_all add: handleFileError_def Error_def js_get_def errorResponses_def)

lemma handlers_on_resolver_error:
  "getFileFromRequest e req w = Inl error \<Longrightarrow> downloadFile e req w = handleFileError error w"
  "getFileFromRequest e req w = Inl error \<Longrightarrow> viewFile e req w = handleFileError error w"
  by (simp_all add: downloadFile_def viewFile_def)

text \<open>
  Claim C3. The resolver fails with a message of its own for each link: no file name,
  no token or no session identifier (either may come in a header or in the query), no
  file of that name, no message for the file, no room of the message with the requester
  among its participants. It returns the file when every lookup finds its document.
  The error handler maps the five messages, which differ from one another, to the
  statuses 400, 401, 404, 404 and 403. When the resolver fails, the download and the
  view handler answer with what the error handler gives and hand nothing to the store
  client; when it returns a file, the download handler asks for a signed URL of 60
  seconds, and so does the view handler for a file that can be previewed.
\<close>

theorem resolver_outcomes:
  "(\<not> truthy (params_filename req) \<longrightarrow>
      getFileFromRequest e req w = Inl (Error ''Invalid filename'')) \<and>
   (truthy (params_filename req) \<and>
      (\<not> truthy (js_or (header_auth_token req) (query_token req)) \<or>
       \<not> truthy (js_or (header_session_id req) (query_sessionId req))) \<longrightarrow>
      getFileFromRequest e req w = Inl (Error ''Authentication required'')) \<and>
   (\<forall>filename. params_filename req = Some filename \<and> filename \<noteq> [] \<and>
      truthy (js_or (header_auth_token req) (query_token req)) \<and>
      truthy (js_or (header_session_id req) (query_sessionId req)) \<longrightarrow>
      (File_findOne_filename e w filename = Inr None \<longrightarrow>
         getFileFromRequest e req w = Inl (Error ''File not found in database'')) \<and>
      (\<forall>file. File_findOne_filename e w filename = Inr (Some file) \<longrightarrow>
         (Message_findOne_file e w (f_id file) = Inr None \<longrightarrow>
            getFileFromRequest e req w = Inl (Error ''File message not found'')) \<and>
         (\<forall>message. Message_findOne_file e w (f_id file) = Inr (Some message) \<longrightarrow>
            (Room_findOne_participant e w (m_room message) (user_id req) = Inr None \<longrightarrow>
               getFileFromRequest e req w = Inl (Error ''Unauthorized access'')) \<and>
            (\<forall>room. Room_findOne_participant e w (m_room message) (user_id req)
                       = Inr (Some room) \<longrightarrow>
               getFileFromRequest e req w = Inr file)))) \<and>
   (\<forall>room_id uid. catalog_fault e (Room_findOne room_id uid) = None \<longrightarrow>
      (Room_findOne_participant e w room_id uid = Inr None \<longleftrightarrow>
         (\<forall>r \<in> set (rooms w). r_id r = room_id \<longrightarrow> uid \<notin> set (r_participants r)))) \<and>
   fst (handleFileError (Error ''Invalid filename'') w) = failure 400 txt_bad_filename \<and>
   fst (handleFileError (Error ''Authentication required'') w) = failure 401 txt_auth_required \<and>
   fst (handleFileError (Error ''File not found in database'') w)
     = failure 404 txt_file_not_found \<and>
   fst (handleFileError (Error ''File message not found'') w)
     = failure 404 txt_message_not_found \<and>
   fst (handleFileError (Error ''Unauthorized access'') w) = failure 403 txt_no_access \<and>
   distinct [''Invalid filename'', ''Authentication required'', ''File not found in database'',
             ''File message not found'', ''Unauthorized access''] \<and>
   (\<forall>error. getFileFromRequest e req w = Inl error \<longrightarrow>
      downloadFile e req w = handleFileError error w \<and>
      viewFile e req w = handleFileError error w \<and>
      s3_calls (snd (downloadFile e req w)) = s3_calls w \<and>
      s3_calls (snd (viewFile e req w)) = s3_calls w) \<and>
   (\<forall>file. getFileFromRequest e req w = Inr file \<longrightarrow>
      s3_calls (snd (downloadFile e req w)) =
        s3_calls w @
        [Presign (GetObjectCommand (process_env e ''AWS_BUCKET_NAME'') (f_path file)
                    (Some (''attachment; filename='' @ [CHR 0x22]
                           @ encodeURIComponent e (f_originalname file) @ [CHR 0x22]))) 60] \<and>
      (isPreviewable e file \<longrightarrow>
         s3_calls (snd (viewFile e req w)) =
           s3_calls w @
           [Presign (GetObjectCommand (process_env e ''AWS_BUCKET_NAME'') (f_path file) None)
              60]))"
proof -
  have resolver:
    "(\<not> truthy (params_filename req) \<longrightarrow>
      getFileFromRequest e req w = Inl (Error ''Invalid filename'')) \<and>
     (truthy (params_filename req) \<and>
      (\<not> truthy (js_or (header_auth_token req) (query_token req)) \<or>
       \<not> truthy (js_or (header_session_id req) (query_sessionId req))) \<longrightarrow>
      getFileFromRequest e req w = Inl (Error ''Authentication required'')) \<and>
     (\<forall>filename. params_filename req = Some filename \<and> filename \<noteq> [] \<and>
      truthy (js_or (header_auth_token req) (query_token req)) \<and>
      truthy (js_or (header_session_id req) (query_sessionId req)) \<longrightarrow>
      (File_findOne_filename e w filename = Inr None \<longrightarrow>
         getFileFromRequest e req w = Inl (Error ''File not found in database'')) \<and>
      (\<forall>file. File_findOne_filename e w filename = Inr (Some file) \<longrightarrow>
         (Message_findOne_file e w (f_id file) = Inr None \<longrightarrow>
            getFileFromRequest e req w = Inl (Error ''File message not found'')) \<and>
         (\<forall>message. Message_findOne_file e w (f_id file) = Inr (Some message) \<longrightarrow>
            (Room_findOne_participant e w (m_room message) (user_id req) = Inr None \<longrightarrow>
               getFileFromRequest e req w = Inl (Error ''Unauthorized access'')) \<and>
            (\<forall>room. Room_findOne_participant e w (m_room message) (user_id req)
                       = Inr (Some room) \<longrightarrow>
               getFileFromRequest e req w = Inr file))))"
    by (auto simp: getFileFromRequest_def truthy_def split: option.splits)
  have names: "distinct [''Invalid filename'', ''Authentication required'',
      ''File not found in database'', ''File message not found'', ''Unauthorized access'']"
    by simp
  have failed: "downloadFile e req w = handleFileError error w \<and>
      viewFile e req w = handleFileError error w \<and>
      s3_calls (snd (downloadFile e req w)) = s3_calls w \<and>
      s3_calls (snd (viewFile e req w)) = s3_calls w"
    if "getFileFromRequest e req w = Inl error" for error
    using that by (simp add: handlers_on_resolver_error)
  show ?thesis
    using resolver names failed no_room_iff [of e _ _ w] handleFileError_status [of w]
      downloadFile_resolved [of e req w] viewFile_resolved [of e req w]
    by blast
qed

theorem resolver_outcomes_witness:
  "fst (downloadFile sample_env (get_request ''bob'' None) sample_world)
     = failure 400 txt_bad_filename \<and>
   fst (viewFile sample_env
          ((get_request ''bob'' (Some ''legacy.png''))\<lparr>header_session_id := None\<rparr>) sample_world)
     = failure 401 txt_auth_required \<and>
   fst (downloadFile sample_env (get_request ''bob'' (Some ''missing.png'')) sample_world)
     = failure 404 txt_file_not_found \<and>
   fst (downloadFile sample_env
          (get_request ''bob'' (Some ''1730000000456_00000000000000ff.png'')) sample_world)
     = failure 404 txt_message_not_found \<and>
   fst (viewFile sample_env
          (get_request ''carol'' (Some ''1730000000123_0123456789abcdef.png'')) sample_world)
     = failure 403 txt_no_access \<and>
   s3_calls (snd (viewFile sample_env
          (get_request ''carol'' (Some ''1730000000123_0123456789abcdef.png'')) sample_world))
     = [] \<and>
   s3_calls (snd (downloadFile sample_env
          (get_request ''bob'' (Some ''1730000000123_0123456789abcdef.png'')) sample_world))
     = [Presign (GetObjectCommand (Some ''chat-files'')
                   ''uploads/1730000000123_0123456789abcdef.png''
                   (Some (''attachment; filename='' @ [CHR 0x22] @ ''photo.png'' @ [CHR 0x22])))
          60]"
proof -
  have t: "truthy (Some ''token'')" "truthy (Some ''session'')" "\<not> truthy None"
    "truthy (Some ''legacy.png'')" "truthy (Some ''missing.png'')"
    by (simp_all add: truthy_def)
  have no_session:
    "params_filename ((get_request ''bob'' (Some ''legacy.png''))\<lparr>header_session_id := None\<rparr>)
       = Some ''legacy.png''"
    "header_session_id ((get_request ''bob'' (Some ''legacy.png''))\<lparr>header_session_id := None\<rparr>)
       = None"
    "query_sessionId ((get_request ''bob'' (Some ''legacy.png''))\<lparr>header_session_id := None\<rparr>)
       = None"
    by (simp_all add: get_request_def)
  note facts = sample_simps sample_world_fields t
  have c1: "fst (downloadFile sample_env (get_request ''bob'' None) sample_world)
              = failure 400 txt_bad_filename"
    using resolver_outcomes [of "get_request ''bob'' None" sample_env sample_world]
    by (simp add: facts)
  have c2: "fst (viewFile sample_env
              ((get_request ''bob'' (Some ''legacy.png''))\<lparr>header_session_id := None\<rparr>)
              sample_world) = failure 401 txt_auth_required"
    using resolver_outcomes
            [of "(get_request ''bob'' (Some ''legacy.png''))\<lparr>header_session_id := None\<rparr>"
                sample_env sample_world]
    by (simp add: facts no_session)
  have c3: "fst (downloadFile sample_env (get_request ''bob'' (Some ''missing.png'')) sample_world)
              = failure 404 txt_file_not_found"
    using resolver_outcomes [of "get_request ''bob'' (Some ''missing.png'')" sample_env sample_world]
    by (simp add: facts)
  have c4: "fst (downloadFile sample_env
              (get_request ''bob'' (Some ''1730000000456_00000000000000ff.png'')) sample_world)
              = failure 404 txt_message_not_found"
    using resolver_outcomes
            [of "get_request ''bob'' (Some ''1730000000456_00000000000000ff.png'')"
                sample_env sample_world]
    by (simp add: facts)
  have c5: "fst (viewFile sample_env
              (get_request ''carol'' (Some ''1730000000123_0123456789abcdef.png'')) sample_world)
              = failure 403 txt_no_access \<and>
            s3_calls (snd (viewFile sample_env
              (get_request ''carol'' (Some ''1730000000123_0123456789abcdef.png'')) sample_world))
              = []"
    using resolver_outcomes
            [of "get_request ''carol'' (Some ''1730000000123_0123456789abcdef.png'')"
                sample_env sample_world]
    by (simp add: facts)
  have c6: "s3_calls (snd (downloadFile sample_env
              (get_request ''bob'' (Some ''1730000000123_0123456789abcdef.png'')) sample_world))
            = [Presign (GetObjectCommand (Some ''chat-files'')
                 ''uploads/1730000000123_0123456789abcdef.png''
                 (Some (''attachment; filename='' @ [CHR 0x22] @ ''photo.png'' @ [CHR 0x22])))
                 60]"
    using resolver_outcomes
            [of "get_request ''bob'' (Some ''1730000000123_0123456789abcdef.png'')"
                sample_env sample_world]
    by (simp add: facts)
  show ?thesis
    using c1 c2 c3 c4 c5 c6 by simp
qed

section \<open>Deleting an attachment\<close>

text \<open>
  Claim C9. When the file exists and its owner is not the requester, \<^verbatim>\<open>deleteFile\<close>
  answers with status 403 and returns the state it was given: the collections, the list
  of calls to the store client and the console are what they were.
\<close>

theorem deleteFile_not_owner:
  "File_findById_id e w (params_id req) = Inr (Some file) \<Longrightarrow> f_user file \<noteq> user_id req \<Longrightarrow>
   deleteFile e req w = (failure 403 txt_no_delete_permission, w)"
  by (simp add: deleteFile_def)

theorem deleteFile_not_owner_witness:
  "File_findById_id sample_env sample_world (params_id (delete_request ''bob'' ''f1''))
     = Inr (Some photo) \<and>
   f_user photo \<noteq> user_id (delete_request ''bob'' ''f1'') \<and>
   deleteFile sample_env (delete_request ''bob'' ''f1'') sample_world
     = (failure 403 txt_no_delete_permission, sample_world) \<and>
   files sample_world = [photo, orphan, legacy] \<and> s3_calls sample_world = []"
  using deleteFile_not_owner [of sample_env sample_world "delete_request ''bob'' ''f1''" photo]
  by (simp add: sample_simps sample_world_fields)

section \<open>A store that fails to delete\<close>

text \<open>
  In \<^verbatim>\<open>deleteFile\<close> the call to the store stands in the handler's one \<^verbatim>\<open>try\<close> block
  (line 202). When the store rejects it, the \<^verbatim>\<open>catch\<close> branch answers with status 500
  and the error's message, and the record stays in the catalog.
\<close>

lemma deleteFile_store_failure:
  assumes "File_findById_id e w (params_id req) = Inr (Some file)"
    and "f_user file = user_id req"
    and "s3_send e (DeleteObjectCommand (process_env e ''AWS_BUCKET_NAME'') (f_path file))
           = Some error"
  shows "fst (deleteFile e req w) =
           Json 500 [(''success'', JBool False), (''message'', JStr txt_delete_failed),
                     (''error'', JStr (err_message error))]"
    and "files (snd (deleteFile e req w)) = files w"
  using assms by (simp_all add: deleteFile_def deleteFile_caught_def)

text \<open>
  The three handlers of the user controller catch the store's error where it arises. If
  the catalog and the cache do their part, the answer is a success and the user's
  record is changed or removed, whatever the store did.
\<close>

lemma deleteAccount_tolerates_store:
  assumes "User_findById_id e w (user_id req) = Inr (Some user)"
    and "catalog_fault e (User_deleteOne (u_id user)) = None"
  shows "fst (deleteAccount e req w) =
           Json 200 [(''success'', JBool True), (''message'', JStr txt_account_deleted)]"
    and "users (snd (deleteAccount e req w)) = filter (\<lambda>u. u_id u \<noteq> u_id user) (users w)"
  using assms
  by (simp_all add: deleteAccount_def user_deleteOne_def ProfileCache_invalidateProfile_def
      Let_def split: option.splits)

lemma uploadProfileImage_tolerates_store:
  assumes "body_profileImage req = Some key" and "key \<noteq> []" and "user_id req \<noteq> []"
    and "User_findById_id e w (user_id req) = Inr (Some user)"
    and "\<And>u. catalog_fault e (User_save u) = None"
    and "redis_fault e (Redis_setEx (getCacheKey (user_id req))) = None"
  shows "fst (uploadProfileImage e req w) =
           Json 200 [(''success'', JBool True), (''message'', JStr txt_image_saved),
                     (''profileImage'', JStr key)]"
  using assms
  by (simp add: uploadProfileImage_def user_save_def ProfileCache_updateProfile_def
      truthy_def Let_def split: option.splits)

lemma deleteProfileImage_tolerates_store:
  assumes "user_id req \<noteq> []"
    and "User_findById_id e w (user_id req) = Inr (Some user)"
    and "\<And>u. catalog_fault e (User_save u) = None"
    and "redis_fault e (Redis_setEx (getCacheKey (user_id req))) = None"
  shows "fst (deleteProfileImage e req w) =
           Json 200 [(''success'', JBool True), (''message'', JStr txt_image_deleted)]"
  using assms
  by (simp add: deleteProfileImage_def user_save_def ProfileCache_updateProfile_def
      Let_def split: option.splits)

text \<open>
  Claim C2, evaluated. The owner deletes the first file of the sample installation while
  the store times out. The answer is status 500 with the store's message, the catalog
  still holds the three files, and the one call to the store client was the delete.
  The same store does not keep the owner from closing the account.
\<close>

theorem deleteFile_aborts_on_store_failure:
  "fst (deleteFile failing_store (delete_request ''alice'' ''f1'') sample_world) =
     Json 500 [(''success'', JBool False), (''message'', JStr txt_delete_failed),
               (''error'', JStr ''connect ETIMEDOUT 52.219.60.1:443'')] \<and>
   files (snd (deleteFile failing_store (delete_request ''alice'' ''f1'') sample_world)) =
     [photo, orphan, legacy] \<and>
   s3_calls (snd (deleteFile failing_store (delete_request ''alice'' ''f1'') sample_world)) =
     [Send (DeleteObjectCommand (Some ''chat-files'')
              ''uploads/1730000000123_0123456789abcdef.png'')] \<and>
   fst (deleteAccount failing_store (delete_request ''alice'' ''f1'') sample_world) =
     Json 200 [(''success'', JBool True), (''message'', JStr txt_account_deleted)]"
proof -
  have found: "File_findById_id failing_store sample_world
                 (params_id (delete_request ''alice'' ''f1'')) = Inr (Some photo)"
    and owner: "f_user photo = user_id (delete_request ''alice'' ''f1'')"
    and fails: "s3_send failing_store
                  (DeleteObjectCommand (process_env failing_store ''AWS_BUCKET_NAME'')
                     (f_path photo))
                = Some (Error ''connect ETIMEDOUT 52.219.60.1:443'')"
    by (simp_all add: sample_simps)
  have user: "User_findById_id failing_store sample_world
                (user_id (delete_request ''alice'' ''f1''))
              = Inr (Some \<lparr>u_id = ''alice'', u_name = ''Alice'', u_email = ''alice@example.org'',
                   u_profileImage =
                     ''https://chat-files.s3.ap-northeast-2.amazonaws.com/uploads/17_aa.png''\<rparr>)"
    by (simp add: User_findById_id_def sample_simps sample_world_def)
  show ?thesis
    using deleteFile_store_failure [OF found owner fails]
      deleteFile_owner_sends [OF found owner]
      deleteAccount_tolerates_store(1) [OF user]
    by (simp add: sample_simps sample_world_fields Error_def)
qed

section \<open>The delete helper\<close>

text \<open>
  Claim C10. \<^verbatim>\<open>deleteFromS3\<close> returns normally for every key, whether or not the
  command's name is bound in the module and whatever the store answers. For a key that
  fails the path check the list of calls to the store client is unchanged and the error
  for an unsafe path is on the console; for a key that passes it, with the name bound,
  an error of the store is on the console. What the caller gets is the same in every
  case, so a refusal cannot be told from a deletion.
\<close>

theorem deleteFromS3_never_throws:
  "fst (deleteFromS3 bound e key w) = Inr () \<and>
   (\<not> isPathSafe key \<longrightarrow>
      snd (deleteFromS3 bound e key w) =
        log (ConsoleError txt_s3_delete_failed (Error txt_unsafe_path)) w \<and>
      s3_calls (snd (deleteFromS3 bound e key w)) = s3_calls w) \<and>
   (\<forall>error. isPathSafe key \<and> bound \<and>
      s3_send e (DeleteObjectCommand (process_env e ''AWS_S3_BUCKET_NAME'') key) = Some error \<longrightarrow>
      snd (deleteFromS3 bound e key w) =
        log (ConsoleError txt_s3_delete_failed error)
          (call_store (Send (DeleteObjectCommand (process_env e ''AWS_S3_BUCKET_NAME'') key)) w)) \<and>
   (isPathSafe key \<and> \<not> bound \<longrightarrow>
      snd (deleteFromS3 bound e key w) =
        log (ConsoleError txt_s3_delete_failed
               (ReferenceError ''DeleteObjectCommand is not defined'')) w) \<and>
   files (snd (deleteFromS3 bound e key w)) = files w"
  by (simp add: deleteFromS3_def Let_def split: option.splits)

theorem deleteFromS3_never_throws_witness:
  "\<not> isPathSafe ''private/legacy.png'' \<and>
   deleteFromS3 True failing_store ''private/legacy.png'' sample_world =
     (Inr (), log (ConsoleError txt_s3_delete_failed (Error txt_unsafe_path)) sample_world) \<and>
   isPathSafe ''uploads/17_aa.png'' \<and>
   deleteFromS3 True failing_store ''uploads/17_aa.png'' sample_world =
     (Inr (),
      log (ConsoleError txt_s3_delete_failed (Error ''connect ETIMEDOUT 52.219.60.1:443''))
        (call_store (Send (DeleteObjectCommand None ''uploads/17_aa.png'')) sample_world)) \<and>
   deleteFromS3 False failing_store ''uploads/17_aa.png'' sample_world =
     (Inr (),
      log (ConsoleError txt_s3_delete_failed
             (ReferenceError ''DeleteObjectCommand is not defined'')) sample_world)"
proof -
  have unsafe: "\<not> isPathSafe ''private/legacy.png''" and safe: "isPathSafe ''uploads/17_aa.png''"
    by (simp_all add: isPathSafe_def)
  have bucket: "process_env failing_store ''AWS_S3_BUCKET_NAME'' = None"
    by (simp add: failing_store_def sample_env_def bucket_env_def)
  show ?thesis
    using deleteFromS3_never_throws [of True failing_store "''private/legacy.png''" sample_world]
          deleteFromS3_never_throws [of True failing_store "''uploads/17_aa.png''" sample_world]
          deleteFromS3_never_throws [of False failing_store "''uploads/17_aa.png''" sample_world]
    by (simp add: unsafe safe bucket sample_env_fields prod_eq_iff)
qed

section \<open>What an error response carries\<close>

lemma errorResponses_keys: "distinct (map fst errorResponses)"
  by (simp add: errorResponses_def)

lemma handleFileError_response:
  "fst (handleFileError error w) =
     (case js_get errorResponses (err_message error) of
        Own (status, message) \<Rightarrow> failure status message
      | Inherited \<Rightarrow> StatusUndefined [(''success'', JBool False)]
      | Absent \<Rightarrow> failure 500 txt_processing_failed)"
  by (simp add: handleFileError_def Let_def split: property.splits)

lemma handleFileError_console:
  "console (snd (handleFileError error w)) =
     console w @ [ConsoleErrorFields ''File operation error:''
                    [(''message'', err_message error), (''stack'', err_stack error)]]"
  by (simp add: handleFileError_def Let_def split: property.splits)

lemma handleFileError_fields:
  "set (body_fields (fst (handleFileError error w))) \<subseteq> {''success'', ''message''}"
  by (simp add: handleFileError_response split: property.splits)

lemma downloadFile_answers:
  "(\<exists>url. fst (downloadFile e req w) = Redirect url) \<or>
   (\<exists>error w'. downloadFile e req w = handleFileError error w')"
  by (auto simp: downloadFile_def Let_def split: sum.splits)

lemma viewFile_answers:
  "(\<exists>url. fst (viewFile e req w) = Redirect url) \<or>
   fst (viewFile e req w) = failure 415 txt_no_preview \<or>
   (\<exists>error w'. viewFile e req w = handleFileError error w')"
  by (auto simp: viewFile_def Let_def split: sum.splits)

text \<open>
  The \<^verbatim>\<open>catch\<close> branches of \<^verbatim>\<open>uploadFile\<close> (line 103) and \<^verbatim>\<open>deleteFile\<close> (line 209) put the
  message of the error they caught into the body, under \<^verbatim>\<open>error\<close>.
\<close>

lemma uploadFile_caught_body:
  "req_file req = Some rf \<Longrightarrow>
   catalog_fault e (File_save
      \<lparr>f_id = newObjectId e, f_filename = pop_segment (sf_key rf),
       f_originalname = sf_originalname rf, f_mimetype = sf_mimetype rf, f_size = sf_size rf,
       f_user = user_id req, f_path = sf_key rf, f_url = sf_location rf,
       f_uploadDate = now e\<rparr>) = Some error \<Longrightarrow>
   fst (uploadFile e req w) =
     Json 500 [(''success'', JBool False), (''message'', JStr txt_upload_failed),
               (''error'', JStr (err_message error))]"
  by (simp add: uploadFile_def file_save_def Let_def)

lemma download_error_body:
  "fst (downloadFile sample_env (get_request ''bob'' None) sample_world)
     = Json 400 [(''success'', JBool False), (''message'', JStr txt_bad_filename)]"
  by (simp add: downloadFile_def getFileFromRequest_def sample_request_fields
      handleFileError_response Error_def js_get_def errorResponses_def)

text \<open>
  Claim C7, evaluated. The owner deletes a file while the store times out, and a file
  is uploaded while the catalog refuses the record: both answers carry the message of
  the error that was caught, in the field \<^verbatim>\<open>error\<close>. The error handler of the upload
  route sends the message of the error it is given as the text for the user, here that
  of the type error the filter itself throws. The error handler of download and view,
  given the store's error, answers with its fixed text. No body has a field for a
  reason beside the message.
\<close>

theorem raw_error_message_in_body:
  "fst (deleteFile failing_store (delete_request ''alice'' ''f1'') sample_world) =
     Json 500 [(''success'', JBool False), (''message'', JStr txt_delete_failed),
               (''error'', JStr ''connect ETIMEDOUT 52.219.60.1:443'')] \<and>
   fst (uploadFile failing_catalog (upload_request ''alice'' stored11) sample_world) =
     Json 500 [(''success'', JBool False), (''message'', JStr txt_upload_failed),
               (''error'', JStr ''E11000 duplicate key error collection: chat.files'')] \<and>
   fst (errorHandler (TypeError ''ALLOWED_TYPES[file.mimetype].includes is not a function'')) =
     Json 400 [(''success'', JBool False),
               (''message'', JStr ''ALLOWED_TYPES[file.mimetype].includes is not a function'')] \<and>
   fst (handleFileError (Error ''connect ETIMEDOUT 52.219.60.1:443'') sample_world) =
     Json 500 [(''success'', JBool False), (''message'', JStr txt_processing_failed)] \<and>
   body_fields (fst (downloadFile sample_env (get_request ''bob'' None) sample_world))
     = [''success'', ''message'']"
proof -
  have found: "File_findById_id failing_store sample_world
                 (params_id (delete_request ''alice'' ''f1'')) = Inr (Some photo)"
    and owner: "f_user photo = user_id (delete_request ''alice'' ''f1'')"
    and fails: "s3_send failing_store
                  (DeleteObjectCommand (process_env failing_store ''AWS_BUCKET_NAME'')
                     (f_path photo))
                = Some (Error ''connect ETIMEDOUT 52.219.60.1:443'')"
    by (simp_all add: sample_simps)
  have delete: "fst (deleteFile failing_store (delete_request ''alice'' ''f1'') sample_world) =
     Json 500 [(''success'', JBool False), (''message'', JStr txt_delete_failed),
               (''error'', JStr ''connect ETIMEDOUT 52.219.60.1:443'')]"
    using deleteFile_store_failure(1) [OF found owner fails] by (simp add: Error_def)
  have upload: "fst (uploadFile failing_catalog (upload_request ''alice'' stored11) sample_world) =
     Json 500 [(''success'', JBool False), (''message'', JStr txt_upload_failed),
               (''error'', JStr ''E11000 duplicate key error collection: chat.files'')]"
    by (simp add: uploadFile_def upload_request_def file_save_def failing_catalog_def
        refused_def Error_def)
  have route: "fst (errorHandler
                 (TypeError ''ALLOWED_TYPES[file.mimetype].includes is not a function'')) =
     Json 400 [(''success'', JBool False),
               (''message'', JStr ''ALLOWED_TYPES[file.mimetype].includes is not a function'')]"
    by (simp add: errorHandler_def TypeError_def)
  have sibling: "fst (handleFileError (Error ''connect ETIMEDOUT 52.219.60.1:443'') sample_world) =
     Json 500 [(''success'', JBool False), (''message'', JStr txt_processing_failed)]"
    by (simp add: handleFileError_response Error_def js_get_def errorResponses_def
        objectPrototypeKeys_def)
  show ?thesis
    using delete upload route sibling by (simp add: download_error_body)
qed

end
